theory Spec2Isabelle
  imports Complex_Main
begin

section \<open>Floating-point values and the numpy reductions\<close>

text \<open>
  The pay-equity module \<^verbatim>\<open>services/fairness_utils.py\<close> computes with Python and numpy
  floats. A finite float is modelled as a real number (rounding and overflow are not
  modelled, and there is no negative zero); the three special values that a division
  by zero produces under numpy are kept, because the module's behaviour on degenerate
  samples depends on them.
\<close>

datatype float64 = Fin real | PInf | NInf | NaN

fun fl_neg :: "float64 \<Rightarrow> float64" where
  "fl_neg (Fin a) = Fin (- a)"
| "fl_neg PInf = NInf"
| "fl_neg NInf = PInf"
| "fl_neg NaN = NaN"

fun fl_add :: "float64 \<Rightarrow> float64 \<Rightarrow> float64" where
  "fl_add (Fin a) (Fin b) = Fin (a + b)"
| "fl_add NaN _ = NaN"
| "fl_add _ NaN = NaN"
| "fl_add PInf NInf = NaN"
| "fl_add NInf PInf = NaN"
| "fl_add PInf _ = PInf"
| "fl_add _ PInf = PInf"
| "fl_add NInf _ = NInf"
| "fl_add _ NInf = NInf"

definition fl_sub :: "float64 \<Rightarrow> float64 \<Rightarrow> float64" where
  "fl_sub a b = fl_add a (fl_neg b)"

fun fl_mul :: "float64 \<Rightarrow> float64 \<Rightarrow> float64" where
  "fl_mul (Fin a) (Fin b) = Fin (a * b)"
| "fl_mul NaN _ = NaN"
| "fl_mul _ NaN = NaN"
| "fl_mul PInf (Fin b) = (if b = 0 then NaN else if 0 < b then PInf else NInf)"
| "fl_mul NInf (Fin b) = (if b = 0 then NaN else if 0 < b then NInf else PInf)"
| "fl_mul (Fin a) PInf = (if a = 0 then NaN else if 0 < a then PInf else NInf)"
| "fl_mul (Fin a) NInf = (if a = 0 then NaN else if 0 < a then NInf else PInf)"
| "fl_mul PInf PInf = PInf"
| "fl_mul PInf NInf = NInf"
| "fl_mul NInf PInf = NInf"
| "fl_mul NInf NInf = PInf"

text \<open>
  numpy's true division: dividing by zero gives \<^verbatim>\<open>nan\<close> for \<^verbatim>\<open>0/0\<close> and a signed
  infinity otherwise, with a warning and no exception.
\<close>

fun fl_div :: "float64 \<Rightarrow> float64 \<Rightarrow> float64" where
  "fl_div (Fin a) (Fin b) =
     (if b \<noteq> 0 then Fin (a / b)
      else if a = 0 then NaN else if 0 < a then PInf else NInf)"
| "fl_div NaN _ = NaN"
| "fl_div _ NaN = NaN"
| "fl_div (Fin a) PInf = Fin 0"
| "fl_div (Fin a) NInf = Fin 0"
| "fl_div PInf (Fin b) = (if 0 \<le> b then PInf else NInf)"
| "fl_div NInf (Fin b) = (if 0 \<le> b then NInf else PInf)"
| "fl_div PInf PInf = NaN"
| "fl_div PInf NInf = NaN"
| "fl_div NInf PInf = NaN"
| "fl_div NInf NInf = NaN"

fun fl_sqrt :: "float64 \<Rightarrow> float64" where
  "fl_sqrt (Fin a) = (if a < 0 then NaN else Fin (sqrt a))"
| "fl_sqrt PInf = PInf"
| "fl_sqrt NInf = NaN"
| "fl_sqrt NaN = NaN"

fun fl_abs :: "float64 \<Rightarrow> float64" where
  "fl_abs (Fin a) = Fin \<bar>a\<bar>"
| "fl_abs PInf = PInf"
| "fl_abs NInf = PInf"
| "fl_abs NaN = NaN"

text \<open>Comparisons: every comparison with \<^verbatim>\<open>nan\<close> is false.\<close>

fun fl_less :: "float64 \<Rightarrow> float64 \<Rightarrow> bool" where
  "fl_less (Fin a) (Fin b) = (a < b)"
| "fl_less NaN _ = False"
| "fl_less _ NaN = False"
| "fl_less _ NInf = False"
| "fl_less PInf _ = False"
| "fl_less NInf _ = True"
| "fl_less _ PInf = True"

fun fl_le :: "float64 \<Rightarrow> float64 \<Rightarrow> bool" where
  "fl_le (Fin a) (Fin b) = (a \<le> b)"
| "fl_le NaN _ = False"
| "fl_le _ NaN = False"
| "fl_le NInf _ = True"
| "fl_le _ PInf = True"
| "fl_le _ NInf = False"
| "fl_le PInf _ = False"

definition of_py_int :: "int \<Rightarrow> float64" where
  "of_py_int i = Fin (of_int i)"

text \<open>
  \<^verbatim>\<open>np.mean\<close>, \<^verbatim>\<open>np.var\<close> (population variance, \<^verbatim>\<open>ddof=0\<close>), \<^verbatim>\<open>np.std\<close> and
  \<^verbatim>\<open>np.median\<close> of a list of finite floats. On the empty list numpy warns and
  returns \<^verbatim>\<open>nan\<close>.
\<close>

definition mean :: "real list \<Rightarrow> real" where
  "mean xs = sum_list xs / of_nat (length xs)"

definition np_mean :: "real list \<Rightarrow> float64" where
  "np_mean xs = (if xs = [] then NaN else Fin (mean xs))"

definition np_var :: "real list \<Rightarrow> float64" where
  "np_var xs =
     (if xs = [] then NaN else Fin (mean (map (\<lambda>x. (x - mean xs)\<^sup>2) xs)))"

definition np_std :: "real list \<Rightarrow> float64" where
  "np_std xs = fl_sqrt (np_var xs)"

definition np_median :: "real list \<Rightarrow> float64" where
  "np_median xs =
     (let s = sort xs; n = length xs in
      if n = 0 then NaN
      else if odd n then Fin (s ! (n div 2))
      else Fin ((s ! (n div 2 - 1) + s ! (n div 2)) / 2))"

text \<open>
  \<^verbatim>\<open>np.percentile\<close> with its default linear interpolation: the value at the
  fractional rank \<^verbatim>\<open>q/100 * (n-1)\<close> of the sorted sample.
\<close>

definition np_percentile :: "real list \<Rightarrow> real \<Rightarrow> float64" where
  "np_percentile xs q =
     (let s = sort xs; n = length xs in
      if n = 0 then NaN
      else
        let pos = q / 100 * of_nat (n - 1);
            lo = nat \<lfloor>pos\<rfloor>;
            hi = min (lo + 1) (n - 1);
            frac = pos - of_int \<lfloor>pos\<rfloor>
        in Fin (s ! lo + frac * (s ! hi - s ! lo)))"

section \<open>Library dependencies\<close>

datatype error = IndexError | KeyError | ImportError | ZeroDivisionError | ValueError

datatype metric =
  Selection_rate | Demographic_parity | Equalized_odds | True_positive_rate
  | False_positive_rate

text \<open>
  What a fairlearn \<^verbatim>\<open>MetricFrame\<close> exposes to the module: the overall value of each
  metric, and its value for each group of the sensitive feature.
\<close>

record metric_frame =
  mf_overall :: "metric \<Rightarrow> real"
  mf_by_group :: "metric \<Rightarrow> (string \<times> real) list"

text \<open>
  The module-level availability flags \<^verbatim>\<open>_sklearn_available\<close> and
  \<^verbatim>\<open>_fairlearn_available\<close>, and the library functions the module calls but does not
  define: \<^verbatim>\<open>scipy.stats.ttest_ind\<close> (returning the statistic and the p-value),
  scikit-learn's \<^verbatim>\<open>LinearRegression\<close> fit followed by \<^verbatim>\<open>r2_score\<close> (returning the
  slope and R squared, or the library's own exception), and fairlearn's \<^verbatim>\<open>MetricFrame\<close> constructor.
\<close>

record deps =
  sklearn_available :: bool
  fairlearn_available :: bool
  ttest_ind :: "real list \<Rightarrow> real list \<Rightarrow> float64 \<times> float64"
  linear_regression :: "int list \<Rightarrow> real list \<Rightarrow> error + float64 \<times> float64"
  MetricFrame :: "int list \<Rightarrow> int list \<Rightarrow> string list \<Rightarrow> error + metric_frame"

section \<open>Statistical significance\<close>

definition ALPHA :: real where
  "ALPHA = 5 / 100"

text \<open>
  The dictionary \<^verbatim>\<open>COHEN_D_THRESHOLDS\<close>; only its three keys \<^verbatim>\<open>"small"\<close>,
  \<^verbatim>\<open>"medium"\<close> and \<^verbatim>\<open>"large"\<close> are ever looked up.
\<close>

definition COHEN_D_THRESHOLDS :: "string \<Rightarrow> real" where
  "COHEN_D_THRESHOLDS k =
     (if k = ''small'' then 2 / 10 else if k = ''medium'' then 5 / 10 else 8 / 10)"

record significance =
  t_statistic :: float64
  p_value :: float64
  cohens_d :: float64
  effect_size :: string
  significant :: bool

definition pooled_sd :: "real list \<Rightarrow> real list \<Rightarrow> float64" where
  "pooled_sd group1_data group2_data =
     (let n1 = int (length group1_data); n2 = int (length group2_data) in
      fl_sqrt (fl_div
        (fl_add (fl_mul (of_py_int (n1 - 1)) (np_var group1_data))
                (fl_mul (of_py_int (n2 - 1)) (np_var group2_data)))
        (of_py_int (n1 + n2 - 2))))"

text \<open>The loop over the thresholds, largest first, that stops at the first one reached.\<close>

fun interpret_effect_size :: "float64 \<Rightarrow> (real \<times> string) list \<Rightarrow> string" where
  "interpret_effect_size d [] = ''negligible''"
| "interpret_effect_size d ((threshold, label) # rest) =
     (if fl_le (Fin threshold) (fl_abs d) then label else interpret_effect_size d rest)"

definition compute_statistical_significance ::
  "deps \<Rightarrow> real list \<Rightarrow> real list \<Rightarrow> significance" where
  "compute_statistical_significance lib group1_data group2_data =
     (let (t_stat, p) = ttest_ind lib group1_data group2_data;
          d = fl_div (fl_sub (np_mean group1_data) (np_mean group2_data))
                     (pooled_sd group1_data group2_data)
      in \<lparr> t_statistic = t_stat,
           p_value = p,
           cohens_d = d,
           effect_size = interpret_effect_size d
             [(COHEN_D_THRESHOLDS ''large'', ''large''),
              (COHEN_D_THRESHOLDS ''medium'', ''medium''),
              (COHEN_D_THRESHOLDS ''small'', ''small'')],
           significant = fl_less p (Fin ALPHA) \<rparr>)"

section \<open>Group statistics and pay gaps\<close>

text \<open>
  A \<^verbatim>\<open>datetime\<close> is modelled as its number of microseconds since a fixed origin;
  \<^verbatim>\<open>(t - t0).days\<close> of a non-negative difference is then a floored division.
\<close>

type_synonym datetime = int

definition days_between :: "datetime \<Rightarrow> datetime \<Rightarrow> int" where
  "days_between t t0 = (t - t0) div 86400000000"

record trend =
  slope :: float64
  r2 :: float64
  trend_direction :: string
  trend_significant :: bool

definition compute_temporal_trend ::
  "deps \<Rightarrow> real list \<Rightarrow> datetime list \<Rightarrow> error + trend" where
  "compute_temporal_trend lib vals timestamps =
     (if timestamps = [] then Inl ValueError
      else
        let t0 = Min (set timestamps);
            days = map (\<lambda>t. days_between t t0) timestamps
        in if \<not> sklearn_available lib then Inl ImportError
           else
             (case linear_regression lib days vals of
                Inl e \<Rightarrow> Inl e
              | Inr (sl, r) \<Rightarrow>
                  Inr \<lparr> slope = sl,
                        r2 = r,
                        trend_direction =
                          (if fl_less (Fin 0) sl then ''increasing'' else ''decreasing''),
                        trend_significant = fl_less (Fin (6 / 10)) r \<rparr>))"

text \<open>
  A list comprehension \<^verbatim>\<open>[xs[i] for i in indices]\<close>: an index past the end raises
  \<^verbatim>\<open>IndexError\<close>. The indices come from \<^verbatim>\<open>enumerate\<close> and are never negative.
\<close>

fun py_getitems :: "'a list \<Rightarrow> nat list \<Rightarrow> error + 'a list" where
  "py_getitems xs [] = Inr []"
| "py_getitems xs (i # is) =
     (if i < length xs
      then (case py_getitems xs is of Inl e \<Rightarrow> Inl e | Inr ys \<Rightarrow> Inr (xs ! i # ys))
      else Inl IndexError)"

record group_statistics =
  mean_salary :: float64
  median_salary :: float64
  std_salary :: float64
  count :: nat
  quartiles :: "float64 list"
  trend :: "trend option"

text \<open>
  \<^verbatim>\<open>_compute_group_statistics\<close>. The optional \<^verbatim>\<open>timestamps\<close> argument is used when
  it is truthy: neither \<^verbatim>\<open>None\<close> nor the empty list.
\<close>

definition compute_group_statistics ::
  "deps \<Rightarrow> real list \<Rightarrow> nat list \<Rightarrow> datetime list option \<Rightarrow> error + group_statistics" where
  "compute_group_statistics lib salaries indices timestamps =
     (case py_getitems salaries indices of
        Inl e \<Rightarrow> Inl e
      | Inr g_salaries \<Rightarrow>
          let stats_data =
                \<lparr> mean_salary = np_mean g_salaries,
                  median_salary = np_median g_salaries,
                  std_salary = np_std g_salaries,
                  count = length g_salaries,
                  quartiles = map (np_percentile g_salaries) [25, 50, 75],
                  trend = None \<rparr>
          in (case timestamps of
                None \<Rightarrow> Inr stats_data
              | Some ts \<Rightarrow>
                  if ts = [] then Inr stats_data
                  else (case py_getitems ts indices of
                          Inl e \<Rightarrow> Inl e
                        | Inr g_times \<Rightarrow>
                            (case compute_temporal_trend lib g_salaries g_times of
                               Inl e \<Rightarrow> Inl e
                             | Inr tr \<Rightarrow> Inr (stats_data\<lparr>trend := Some tr\<rparr>)))))"

text \<open>
  A Python \<^verbatim>\<open>dict\<close> is an association list in insertion order; assigning to a key
  that is present replaces its value in place.
\<close>

fun dict_set :: "'k \<Rightarrow> 'v \<Rightarrow> ('k \<times> 'v) list \<Rightarrow> ('k \<times> 'v) list" where
  "dict_set k v [] = [(k, v)]"
| "dict_set k v ((k', v') # rest) =
     (if k = k' then (k, v) # rest else (k', v') # dict_set k v rest)"

text \<open>Division of Python floats raises on a zero divisor.\<close>

definition py_truediv :: "float64 \<Rightarrow> float64 \<Rightarrow> error + float64" where
  "py_truediv a b = (if b = Fin 0 then Inl ZeroDivisionError else Inr (fl_div a b))"

record gap =
  gap_percentage :: float64
  statistical_significance :: significance
  gap_reference_group :: string

definition salaries_of :: "real list \<Rightarrow> string list \<Rightarrow> string \<Rightarrow> real list" where
  "salaries_of salaries groups g = map fst (filter (\<lambda>(s, grp). grp = g) (zip salaries groups))"

text \<open>
  \<^verbatim>\<open>_compute_group_gaps\<close>: the loop over the set of labels, in the order
  \<^verbatim>\<open>group_labels\<close> in which the set is iterated, with the dictionary \<^verbatim>\<open>gaps\<close> as
  accumulator.
\<close>

fun compute_group_gaps_loop ::
  "deps \<Rightarrow> (string \<times> group_statistics) list \<Rightarrow> real list \<Rightarrow> string list \<Rightarrow> string
     \<Rightarrow> string list \<Rightarrow> (string \<times> gap) list \<Rightarrow> error + (string \<times> gap) list" where
  "compute_group_gaps_loop lib data salaries groups reference_stats [] gaps = Inr gaps"
| "compute_group_gaps_loop lib data salaries groups reference_stats (g # rest) gaps =
     (if g \<noteq> reference_stats then
        (case (map_of data reference_stats, map_of data g) of
           (Some ref_st, Some g_st) \<Rightarrow>
             (case py_truediv (fl_sub (median_salary ref_st) (median_salary g_st))
                              (median_salary ref_st) of
                Inl e \<Rightarrow> Inl e
              | Inr q \<Rightarrow>
                  compute_group_gaps_loop lib data salaries groups reference_stats rest
                    (dict_set g
                       \<lparr> gap_percentage = fl_mul q (Fin 100),
                         statistical_significance =
                           compute_statistical_significance lib
                             (salaries_of salaries groups reference_stats)
                             (salaries_of salaries groups g),
                         gap_reference_group = reference_stats \<rparr>
                       gaps))
         | _ \<Rightarrow> Inl KeyError)
      else compute_group_gaps_loop lib data salaries groups reference_stats rest gaps)"

definition compute_group_gaps ::
  "deps \<Rightarrow> (string \<times> group_statistics) list \<Rightarrow> real list \<Rightarrow> string list \<Rightarrow> string
     \<Rightarrow> string list \<Rightarrow> error + (string \<times> gap) list" where
  "compute_group_gaps lib data salaries groups reference_stats group_labels =
     compute_group_gaps_loop lib data salaries groups reference_stats group_labels []"

record pay_gap_result =
  group_stats :: "(string \<times> group_statistics) list"
  gaps :: "(string \<times> gap) list"
  reference_group :: "string option"

definition indices_of :: "string list \<Rightarrow> string \<Rightarrow> nat list" where
  "indices_of groups g = filter (\<lambda>i. groups ! i = g) [0..<length groups]"

text \<open>
  The first loop of \<^verbatim>\<open>compute_pay_gap\<close>, with \<^verbatim>\<open>data\<close> and \<^verbatim>\<open>reference_stats\<close>
  as state. The reference changes only on a strictly larger count.
\<close>

fun group_stats_loop ::
  "deps \<Rightarrow> real list \<Rightarrow> string list \<Rightarrow> datetime list option \<Rightarrow> string list
     \<Rightarrow> (string \<times> group_statistics) list \<times> string option
     \<Rightarrow> error + (string \<times> group_statistics) list \<times> string option" where
  "group_stats_loop lib salaries groups timestamps [] st = Inr st"
| "group_stats_loop lib salaries groups timestamps (g # rest) (data, reference_stats) =
     (let g_indices = indices_of groups g in
      if g_indices \<noteq> [] then
        (case compute_group_statistics lib salaries g_indices timestamps of
           Inl e \<Rightarrow> Inl e
         | Inr stats_data \<Rightarrow>
             let data' = dict_set g stats_data data in
             (case reference_stats of
                None \<Rightarrow> group_stats_loop lib salaries groups timestamps rest (data', Some g)
              | Some r \<Rightarrow>
                  (case map_of data' r of
                     None \<Rightarrow> Inl KeyError
                   | Some ref_st \<Rightarrow>
                       group_stats_loop lib salaries groups timestamps rest
                         (data', if count ref_st < count stats_data then Some g else Some r))))
      else group_stats_loop lib salaries groups timestamps rest (data, reference_stats))"

text \<open>
  \<^verbatim>\<open>compute_pay_gap\<close>. The argument \<^verbatim>\<open>group_labels\<close> is the order in which Python
  iterates \<^verbatim>\<open>set(groups)\<close>, which the language leaves open; both loops iterate the
  same set object and see the same order. The test \<^verbatim>\<open>if reference_stats and ...\<close> is
  a truth test of the label: the empty string is false.
\<close>

definition set_iteration :: "string list \<Rightarrow> string list \<Rightarrow> bool" where
  "set_iteration group_labels groups \<longleftrightarrow> distinct group_labels \<and> set group_labels = set groups"

definition compute_pay_gap ::
  "deps \<Rightarrow> string list \<Rightarrow> real list \<Rightarrow> string list \<Rightarrow> datetime list option
     \<Rightarrow> error + pay_gap_result" where
  "compute_pay_gap lib group_labels salaries groups timestamps =
     (case group_stats_loop lib salaries groups timestamps group_labels ([], None) of
        Inl e \<Rightarrow> Inl e
      | Inr (data, reference_stats) \<Rightarrow>
          (case reference_stats of
             None \<Rightarrow> Inr \<lparr> group_stats = data, gaps = [], reference_group = None \<rparr>
           | Some r \<Rightarrow>
               if r \<noteq> [] \<and> 2 \<le> length data then
                 (case compute_group_gaps lib data salaries groups r group_labels of
                    Inl e \<Rightarrow> Inl e
                  | Inr gs \<Rightarrow>
                      Inr \<lparr> group_stats = data, gaps = gs, reference_group = Some r \<rparr>)
               else Inr \<lparr> group_stats = data, gaps = [], reference_group = Some r \<rparr>))"

section \<open>Bias metrics\<close>

record metric_sig =
  difference :: real
  ms_significant :: bool
  direction :: string

definition all_metrics :: "metric list" where
  "all_metrics =
     [Selection_rate, Demographic_parity, Equalized_odds, True_positive_rate,
      False_positive_rate]"

text \<open>
  \<^verbatim>\<open>compute_metric_significance\<close>: each group's value of each metric against the
  overall value, flagged when they differ by more than 0.1. The columns of
  \<^verbatim>\<open>by_group\<close> are the five metrics, and the group labels of a frame are distinct.
\<close>

definition compute_metric_significance ::
  "metric_frame \<Rightarrow> (metric \<times> (string \<times> metric_sig) list) list" where
  "compute_metric_significance mf =
     map (\<lambda>m.
            (m, map (\<lambda>(group, group_val).
                       (group,
                        \<lparr> difference = \<bar>group_val - mf_overall mf m\<bar>,
                          ms_significant = (1 / 10 < \<bar>group_val - mf_overall mf m\<bar>),
                          direction =
                            (if mf_overall mf m < group_val then ''above'' else ''below'') \<rparr>))
                    (mf_by_group mf m)))
         all_metrics"

record overall_metrics =
  selection_rate :: real
  demographic_parity :: real
  equalized_odds :: real
  true_positive_rate :: real
  false_positive_rate :: real

record attribute_metrics =
  overall :: overall_metrics
  by_group :: "(metric \<times> (string \<times> real) list) list"
  metric_significance :: "(metric \<times> (string \<times> metric_sig) list) list"

definition metric_entry :: "metric_frame \<Rightarrow> attribute_metrics" where
  "metric_entry mf =
     \<lparr> overall =
         \<lparr> selection_rate = mf_overall mf Selection_rate,
           demographic_parity = mf_overall mf Demographic_parity,
           equalized_odds = mf_overall mf Equalized_odds,
           true_positive_rate = mf_overall mf True_positive_rate,
           false_positive_rate = mf_overall mf False_positive_rate \<rparr>,
       by_group = map (\<lambda>m. (m, mf_by_group mf m)) all_metrics,
       metric_significance = compute_metric_significance mf \<rparr>"

text \<open>The single-feature loop of \<^verbatim>\<open>compute_bias_metrics\<close>.\<close>

fun single_feature_loop ::
  "deps \<Rightarrow> int list \<Rightarrow> int list \<Rightarrow> (string \<times> string list) list
     \<Rightarrow> (string \<times> attribute_metrics) list \<Rightarrow> error + (string \<times> attribute_metrics) list" where
  "single_feature_loop lib y_true y_pred [] results = Inr results"
| "single_feature_loop lib y_true y_pred ((feat_name, feat_values) # rest) results =
     (case MetricFrame lib y_true y_pred feat_values of
        Inl e \<Rightarrow> Inl e
      | Inr mf \<Rightarrow>
          single_feature_loop lib y_true y_pred rest
            (dict_set feat_name (metric_entry mf) results))"

text \<open>
  The pairs \<^verbatim>\<open>(i, j)\<close> with \<^verbatim>\<open>i < j\<close> in the order of the two nested loops, and the
  intersectional loop over them.
\<close>

fun feature_pairs :: "'a list \<Rightarrow> ('a \<times> 'a) list" where
  "feature_pairs [] = []"
| "feature_pairs (x # xs) = map (Pair x) xs @ feature_pairs xs"

fun intersectional_loop ::
  "deps \<Rightarrow> int list \<Rightarrow> int list
     \<Rightarrow> ((string \<times> string list) \<times> (string \<times> string list)) list
     \<Rightarrow> (string \<times> attribute_metrics) list \<Rightarrow> error + (string \<times> attribute_metrics) list" where
  "intersectional_loop lib y_true y_pred [] results = Inr results"
| "intersectional_loop lib y_true y_pred (((feat1, vals1), (feat2, vals2)) # rest) results =
     (case MetricFrame lib y_true y_pred
             (map (\<lambda>(f1, f2). f1 @ ''_'' @ f2) (zip vals1 vals2)) of
        Inl e \<Rightarrow> Inl e
      | Inr mf \<Rightarrow>
          intersectional_loop lib y_true y_pred rest
            (dict_set (feat1 @ ''_x_'' @ feat2) (metric_entry mf) results))"

definition compute_bias_metrics ::
  "deps \<Rightarrow> int list \<Rightarrow> int list \<Rightarrow> (string \<times> string list) list
     \<Rightarrow> error + (string \<times> attribute_metrics) list" where
  "compute_bias_metrics lib y_true y_pred sensitive_features =
     (if \<not> fairlearn_available lib then Inl ImportError
      else
        (case single_feature_loop lib y_true y_pred sensitive_features [] of
           Inl e \<Rightarrow> Inl e
         | Inr results \<Rightarrow>
             if 2 \<le> length sensitive_features
             then intersectional_loop lib y_true y_pred
                    (feature_pairs sensitive_features) results
             else Inr results))"

section \<open>The overall fairness score\<close>

record trends_input =
  historical_metrics :: "(string \<times> real list) list option"
  increasing_disparity :: "bool option"

text \<open>
  The dictionary \<^verbatim>\<open>analysis_results\<close>: each of the keys \<^verbatim>\<open>"pay_gap"\<close>,
  \<^verbatim>\<open>"bias_metrics"\<close> and \<^verbatim>\<open>"trends"\<close> is present or absent. The value of
  \<^verbatim>\<open>"increasing_disparity"\<close> is modelled by its truth value.
\<close>

record analysis_results =
  pay_gap :: "pay_gap_result option"
  bias_metrics :: "(string \<times> attribute_metrics) list option"
  trends :: "trends_input option"

text \<open>
  Python's \<^verbatim>\<open>max\<close> keeps the first item and replaces it by a later one only when the
  later one compares greater; with \<^verbatim>\<open>default\<close> it returns the default on an empty
  iterable.
\<close>

definition py_max2 :: "float64 \<Rightarrow> float64 \<Rightarrow> float64" where
  "py_max2 a b = (if fl_less a b then b else a)"

definition py_max_default :: "float64 list \<Rightarrow> float64 \<Rightarrow> float64" where
  "py_max_default xs d = (case xs of [] \<Rightarrow> d | x # rest \<Rightarrow> foldl py_max2 x rest)"

definition weights :: "string \<Rightarrow> real" where
  "weights component =
     (if component = ''pay_gap'' then 4 / 10
      else if component = ''bias_metrics'' then 3 / 10
      else if component = ''trend'' then 3 / 10
      else 1)"

definition py_sum :: "float64 list \<Rightarrow> float64" where
  "py_sum xs = foldl fl_add (Fin 0) xs"

text \<open>
  \<^verbatim>\<open>calculate_overall_fairness_score\<close> appends to \<^verbatim>\<open>score_components\<close> in three
  blocks, one for each key of the input; each block is a definition here, returning
  what it appends. The weighted sum is then divided by the total weight, which is
  positive whenever a component is present.
\<close>

definition pay_gap_component :: "analysis_results \<Rightarrow> (string \<times> float64) list" where
  "pay_gap_component ar =
     (case pay_gap ar of
        None \<Rightarrow> []
      | Some pg \<Rightarrow>
          let max_gap = py_max_default (map (\<lambda>(k, g). fl_abs (gap_percentage g)) (gaps pg)) (Fin 0);
              gap_score = py_max2 (Fin 0) (fl_sub (Fin 1) (fl_div max_gap (Fin 20)))
          in [(''pay_gap'', gap_score)])"

definition bias_component :: "analysis_results \<Rightarrow> (string \<times> float64) list" where
  "bias_component ar =
     (case bias_metrics ar of
        None \<Rightarrow> []
      | Some metrics \<Rightarrow>
          let bias_scores =
                concat (map (\<lambda>(attr, attr_metrics).
                               [1 - \<bar>demographic_parity (overall attr_metrics)\<bar>,
                                1 - \<bar>equalized_odds (overall attr_metrics)\<bar>]) metrics)
          in if bias_scores \<noteq> [] then [(''bias_metrics'', np_mean bias_scores)] else [])"

definition trend_component :: "analysis_results \<Rightarrow> (string \<times> float64) list" where
  "trend_component ar =
     (case trends ar of
        None \<Rightarrow> []
      | Some tr \<Rightarrow>
          (case increasing_disparity tr of
             None \<Rightarrow> []
           | Some d \<Rightarrow> [(''trend'', if \<not> d then Fin 1 else Fin (5 / 10))]))"

definition calculate_overall_fairness_score :: "analysis_results \<Rightarrow> float64" where
  "calculate_overall_fairness_score ar =
     (let score_components = pay_gap_component ar @ bias_component ar @ trend_component ar
      in if score_components \<noteq> [] then
           let weighted_sum =
                 py_sum (map (\<lambda>(component, score). fl_mul (Fin (weights component)) score)
                           score_components);
               total_weight = py_sum (map (\<lambda>(component, score). Fin (weights component))
                                        score_components)
           in fl_div weighted_sum total_weight
         else Fin 0)"

section \<open>Trend analyses\<close>

text \<open>
  The three trend analyses return \<^verbatim>\<open>{"status": "insufficient_data"}\<close> when the key
  \<^verbatim>\<open>"historical_metrics"\<close> is missing, and otherwise a dictionary from metric names
  to findings.
\<close>

datatype 'a per_metric = Insufficient_data | Per_metric "(string \<times> 'a) list"

text \<open>
  \<^verbatim>\<open>np.polyfit(x, y, 1)\<close> for \<^verbatim>\<open>x = np.arange(len(y))\<close>: the least-squares line through
  at least two points, as slope and intercept.
\<close>

definition arange :: "nat \<Rightarrow> real list" where
  "arange n = map of_nat [0..<n]"

definition polyfit1 :: "real list \<Rightarrow> real list \<Rightarrow> real \<times> real" where
  "polyfit1 x y =
     (let xbar = mean x; ybar = mean y;
          sl = sum_list (map (\<lambda>(xi, yi). (xi - xbar) * (yi - ybar)) (zip x y))
                 / sum_list (map (\<lambda>xi. (xi - xbar)\<^sup>2) x)
      in (sl, ybar - sl * xbar))"

record long_term_trend =
  lt_direction :: string
  strength :: real
  lt_significance :: float64
  concerning :: bool

fun long_term_loop ::
  "nat \<Rightarrow> (string \<times> real list) list \<Rightarrow> (string \<times> long_term_trend) list
     \<Rightarrow> (string \<times> long_term_trend) list" where
  "long_term_loop min_periods [] results = results"
| "long_term_loop min_periods ((metric_name, vals) # rest) results =
     (if length vals < min_periods then long_term_loop min_periods rest results
      else
        let x = arange (length vals);
            (sl, intercept) = polyfit1 x vals;
            r_squared =
              fl_sub (Fin 1)
                (fl_div (Fin (sum_list (map (\<lambda>(xi, yi). (yi - (sl * xi + intercept))\<^sup>2)
                                          (zip x vals))))
                        (Fin (sum_list (map (\<lambda>yi. (yi - mean vals)\<^sup>2) vals))))
        in long_term_loop min_periods rest
             (dict_set metric_name
                \<lparr> lt_direction = (if 0 < sl then ''increasing'' else ''decreasing''),
                  strength = \<bar>sl\<bar>,
                  lt_significance = r_squared,
                  concerning = (0 < sl \<and> fl_less (Fin (7 / 10)) r_squared) \<rparr>
                results))"

definition identify_long_term_trends ::
  "trends_input \<Rightarrow> nat \<Rightarrow> long_term_trend per_metric" where
  "identify_long_term_trends tr min_periods =
     (case historical_metrics tr of
        None \<Rightarrow> Insufficient_data
      | Some metrics \<Rightarrow> Per_metric (long_term_loop min_periods metrics []))"

record seasonal_pattern =
  seasonal_effect :: float64
  consistency :: float64
  sp_significant :: bool

fun seasonal_loop ::
  "nat \<Rightarrow> (string \<times> real list) list \<Rightarrow> (string \<times> seasonal_pattern) list
     \<Rightarrow> (string \<times> seasonal_pattern) list" where
  "seasonal_loop period [] patterns = patterns"
| "seasonal_loop period ((metric_name, vals) # rest) patterns =
     (if length vals < period * 2 then seasonal_loop period rest patterns
      else
        let seasonal_diffs =
              map (\<lambda>i. vals ! (i + period) - vals ! i) [0..<length vals - period];
            c = fl_div (np_std seasonal_diffs) (np_mean (map abs seasonal_diffs))
        in seasonal_loop period rest
             (dict_set metric_name
                \<lparr> seasonal_effect = np_mean seasonal_diffs,
                  consistency = fl_div (Fin 1) (fl_add (Fin 1) c),
                  sp_significant = fl_less c (Fin (5 / 10)) \<rparr>
                patterns))"

definition detect_seasonal_patterns ::
  "trends_input \<Rightarrow> nat \<Rightarrow> seasonal_pattern per_metric" where
  "detect_seasonal_patterns tr period =
     (case historical_metrics tr of
        None \<Rightarrow> Insufficient_data
      | Some metrics \<Rightarrow> Per_metric (seasonal_loop period metrics []))"

record anomaly =
  anomaly_indices :: "nat list"
  anomaly_values :: "real list"
  z_scores :: "float64 list"

fun anomaly_loop ::
  "real \<Rightarrow> (string \<times> real list) list \<Rightarrow> (string \<times> anomaly) list
     \<Rightarrow> (string \<times> anomaly) list" where
  "anomaly_loop z_threshold [] anomalies = anomalies"
| "anomaly_loop z_threshold ((metric_name, vals) # rest) anomalies =
     (if length vals < 3 then anomaly_loop z_threshold rest anomalies
      else
        let z = map (\<lambda>v. fl_abs (fl_div (fl_sub (Fin v) (np_mean vals)) (np_std vals))) vals;
            anomaly_points = filter (\<lambda>i. fl_less (Fin z_threshold) (z ! i)) [0..<length vals]
        in if anomaly_points \<noteq> [] then
             anomaly_loop z_threshold rest
               (dict_set metric_name
                  \<lparr> anomaly_indices = anomaly_points,
                    anomaly_values = map (\<lambda>i. vals ! i) anomaly_points,
                    z_scores = map (\<lambda>i. z ! i) anomaly_points \<rparr>
                  anomalies)
           else anomaly_loop z_threshold rest anomalies)"

definition detect_trend_anomalies :: "trends_input \<Rightarrow> real \<Rightarrow> anomaly per_metric" where
  "detect_trend_anomalies tr z_threshold =
     (case historical_metrics tr of
        None \<Rightarrow> Insufficient_data
      | Some metrics \<Rightarrow> Per_metric (anomaly_loop z_threshold metrics []))"

section \<open>Report and recommendations\<close>

record pay_equity_analysis =
  pe_gaps :: "(string \<times> gap) list"
  pe_statistical_significance :: bool
  largest_gap :: float64

record bias_analysis =
  ba_demographic_parity :: real
  ba_equalized_odds :: real
  significant_disparities :: "metric list"

record trend_analysis =
  long_term_trends :: "long_term_trend per_metric"
  seasonal_patterns :: "seasonal_pattern per_metric"
  anomalies :: "anomaly per_metric"

text \<open>
  The dictionary \<^verbatim>\<open>report["detailed_analysis"]\<close>. Its keys are always present; the
  values of \<^verbatim>\<open>"pay_equity"\<close> and \<^verbatim>\<open>"trend_analysis"\<close> are the empty dictionary
  (\<open>None\<close>) until the matching analysis fills them, and \<^verbatim>\<open>"intersectional_findings"\<close>
  stays empty.
\<close>

record detailed_analysis =
  pay_equity :: "pay_equity_analysis option"
  da_bias_metrics :: "(string \<times> bias_analysis) list"
  da_trend_analysis :: "trend_analysis option"

record recommendation =
  category :: string
  priority :: string
  title :: string
  description :: string
  actions :: "string list"
  impact :: string
  effort :: string
  timeframe :: string

text \<open>
  \<^verbatim>\<open>trends.get("long_term_trends", {}).get("concerning", False)\<close>, as a truth value:
  the lookup of the key \<^verbatim>\<open>"concerning"\<close> in the dictionary of long-term trends, whose
  keys are metric names (or \<^verbatim>\<open>"status"\<close>). A finding is a non-empty dictionary and
  counts as true.
\<close>

definition get_concerning :: "long_term_trend per_metric \<Rightarrow> bool" where
  "get_concerning lt =
     (case lt of
        Insufficient_data \<Rightarrow> False
      | Per_metric results \<Rightarrow>
          (case map_of results ''concerning'' of None \<Rightarrow> False | Some finding \<Rightarrow> True))"

definition pay_equity_recommendations :: "detailed_analysis \<Rightarrow> recommendation list" where
  "pay_equity_recommendations analysis =
     (if fl_less (Fin 5)
           (case pay_equity analysis of None \<Rightarrow> Fin 0 | Some equity \<Rightarrow> largest_gap equity)
      then [\<lparr> category = ''pay_equity'',
              priority = ''high'',
              title = ''Address Significant Pay Gaps'',
              description = ''Significant pay gaps exceeding 5% detected'',
              actions = [''Review compensation policies'',
                         ''Conduct pay adjustment analysis'',
                         ''Develop remediation plan''],
              impact = ''high'',
              effort = ''medium'',
              timeframe = ''immediate'' \<rparr>]
      else [])"

definition bias_recommendations :: "detailed_analysis \<Rightarrow> recommendation list" where
  "bias_recommendations analysis =
     concat (map (\<lambda>(attr, metrics).
                    if significant_disparities metrics \<noteq> [] then
                      [\<lparr> category = ''bias_mitigation'',
                         priority = ''high'',
                         title = ''Address '' @ attr @ '' Bias'',
                         description = ''Significant disparities detected in '' @ attr,
                         actions = [''Review decision processes'',
                                    ''Implement bias mitigation strategies'',
                                    ''Monitor outcomes closely''],
                         impact = ''high'',
                         effort = ''high'',
                         timeframe = ''short_term'' \<rparr>]
                    else [])
                 (da_bias_metrics analysis))"

definition trend_recommendations :: "detailed_analysis \<Rightarrow> recommendation list" where
  "trend_recommendations analysis =
     (if (case da_trend_analysis analysis of
            None \<Rightarrow> False
          | Some ta \<Rightarrow> get_concerning (long_term_trends ta))
      then [\<lparr> category = ''trend_mitigation'',
              priority = ''medium'',
              title = ''Address Negative Trends'',
              description = ''Concerning long-term trends detected'',
              actions = [''Analyze root causes'',
                         ''Develop intervention strategy'',
                         ''Set up monitoring system''],
              impact = ''medium'',
              effort = ''medium'',
              timeframe = ''medium_term'' \<rparr>]
      else [])"

text \<open>
  \<^verbatim>\<open>generate_smart_recommendations\<close>: the three rules append to one list, in this
  order.
\<close>

definition generate_smart_recommendations :: "detailed_analysis \<Rightarrow> recommendation list" where
  "generate_smart_recommendations analysis =
     pay_equity_recommendations analysis @ bias_recommendations analysis
       @ trend_recommendations analysis"

record summary =
  timestamp :: string
  overall_fairness_score :: float64
  critical_issues :: "string list"
  recommendations :: "recommendation list"

record report =
  report_summary :: summary
  report_detailed_analysis :: detailed_analysis

text \<open>
  The three blocks of \<^verbatim>\<open>generate_fairness_report\<close> that fill
  \<^verbatim>\<open>report["detailed_analysis"]\<close> from the pay gaps, the bias metrics and the trends.
  The trend analyses are called with their default parameters.
\<close>

definition analyse_pay_equity :: "pay_gap_result \<Rightarrow> pay_equity_analysis" where
  "analyse_pay_equity gs =
     \<lparr> pe_gaps = gaps gs,
       pe_statistical_significance =
         list_ex (\<lambda>(k, g). significant (statistical_significance g)) (gaps gs),
       largest_gap = py_max_default (map (\<lambda>(k, g). gap_percentage g) (gaps gs)) (Fin 0) \<rparr>"

definition analyse_bias :: "(string \<times> attribute_metrics) list \<Rightarrow> (string \<times> bias_analysis) list" where
  "analyse_bias metrics =
     map (\<lambda>(attr, m).
            (attr,
             \<lparr> ba_demographic_parity = demographic_parity (overall m),
               ba_equalized_odds = equalized_odds (overall m),
               significant_disparities =
                 map fst (filter (\<lambda>(mt, v). list_ex (\<lambda>(grp, r). ms_significant r) v)
                            (metric_significance m)) \<rparr>))
         metrics"

definition analyse_trends :: "trends_input \<Rightarrow> trend_analysis" where
  "analyse_trends tr =
     \<lparr> long_term_trends = identify_long_term_trends tr 4,
       seasonal_patterns = detect_seasonal_patterns tr 12,
       anomalies = detect_trend_anomalies tr 2 \<rparr>"

text \<open>
  \<^verbatim>\<open>generate_fairness_report\<close>. The argument \<^verbatim>\<open>now\<close> stands for
  \<^verbatim>\<open>datetime.now().isoformat()\<close>; the \<^verbatim>\<open>"visualizations"\<close> entry, three times
  \<^verbatim>\<open>None\<close>, is left out.
\<close>

definition generate_fairness_report :: "string \<Rightarrow> analysis_results \<Rightarrow> report" where
  "generate_fairness_report now ar =
     (let equity = map_option analyse_pay_equity (pay_gap ar);
          issues =
            (case equity of
               None \<Rightarrow> []
             | Some e \<Rightarrow>
                 if fl_less (Fin 5) (largest_gap e)
                 then [''Significant pay gaps detected exceeding 5%''] else []);
          detail =
            \<lparr> pay_equity = equity,
              da_bias_metrics = (case bias_metrics ar of None \<Rightarrow> [] | Some m \<Rightarrow> analyse_bias m),
              da_trend_analysis = map_option analyse_trends (trends ar) \<rparr>
      in \<lparr> report_summary =
             \<lparr> timestamp = now,
               overall_fairness_score = calculate_overall_fairness_score ar,
               critical_issues = issues,
               recommendations = generate_smart_recommendations detail \<rparr>,
           report_detailed_analysis = detail \<rparr>)"

section \<open>Observations, invariants and a sample configuration\<close>

text \<open>
  A configuration in which neither scikit-learn nor fairlearn is installed. The t-test
  of this configuration is a stand-in with the symmetry of the real one: its statistic
  is the difference of the means and its p-value is constant.
\<close>

definition no_libraries :: deps where
  "no_libraries =
     \<lparr> sklearn_available = False, fairlearn_available = False,
       ttest_ind = (\<lambda>a b. (fl_sub (np_mean a) (np_mean b), Fin 1)),
       linear_regression = (\<lambda>_ _. Inl ImportError),
       MetricFrame = (\<lambda>_ _ _. Inl ImportError) \<rparr>"

text \<open>Reading a field out of what \<^verbatim>\<open>compute_pay_gap\<close> returns, when it returns.\<close>

definition gap_percentage_of :: "error + pay_gap_result \<Rightarrow> string \<Rightarrow> float64 option" where
  "gap_percentage_of out g =
     (case out of Inl e \<Rightarrow> None | Inr res \<Rightarrow> map_option gap_percentage (map_of (gaps res) g))"

definition reference_group_of :: "error + pay_gap_result \<Rightarrow> string option" where
  "reference_group_of out = (case out of Inl e \<Rightarrow> None | Inr res \<Rightarrow> reference_group res)"

definition group_stat_of ::
  "error + pay_gap_result \<Rightarrow> (group_statistics \<Rightarrow> 'a) \<Rightarrow> string \<Rightarrow> 'a option" where
  "group_stat_of out field g =
     (case out of Inl e \<Rightarrow> None | Inr res \<Rightarrow> map_option field (map_of (group_stats res) g))"

text \<open>
  The invariant of the first loop of \<^verbatim>\<open>compute_pay_gap\<close>: every entry of
  \<^verbatim>\<open>data\<close> counts the occurrences of its label, and the reference is an entry of
  largest count.
\<close>

definition stats_consistent :: "string list \<Rightarrow> (string \<times> group_statistics) list \<Rightarrow> bool" where
  "stats_consistent groups data \<longleftrightarrow>
     (\<forall>g \<in> set (map fst data).
        g \<in> set groups \<and> map_option count (map_of data g) = Some (count_list groups g))"

definition reference_is_largest ::
  "string list \<Rightarrow> (string \<times> group_statistics) list \<Rightarrow> string option \<Rightarrow> bool" where
  "reference_is_largest groups data reference_stats \<longleftrightarrow>
     (case reference_stats of
        None \<Rightarrow> data = []
      | Some r \<Rightarrow> r \<in> set (map fst data) \<and>
          (\<forall>g \<in> set (map fst data). count_list groups g \<le> count_list groups r))"

text \<open>
  The range in which fairlearn reports its two difference metrics, and what it means
  for a component of the score to be a number between 0 and 1.
\<close>

definition bias_values_in_range :: "analysis_results \<Rightarrow> bool" where
  "bias_values_in_range ar \<longleftrightarrow>
     (case bias_metrics ar of
        None \<Rightarrow> True
      | Some metrics \<Rightarrow>
          list_all (\<lambda>(attr, m). \<bar>demographic_parity (overall m)\<bar> \<le> 1
                                \<and> \<bar>equalized_odds (overall m)\<bar> \<le> 1) metrics)"

definition unit_score :: "string \<times> float64 \<Rightarrow> bool" where
  "unit_score c \<longleftrightarrow> (case snd c of Fin s \<Rightarrow> 0 \<le> s \<and> s \<le> 1 | _ \<Rightarrow> False)"

text \<open>The recommendation that the pay-equity rule emits.\<close>

definition is_pay_equity_high :: "recommendation \<Rightarrow> bool" where
  "is_pay_equity_high r \<longleftrightarrow> category r = ''pay_equity'' \<and> priority r = ''high''"

text \<open>An analysis whose only part is a pay-gap result with one gap of 10 percent.\<close>

definition sample_analysis :: analysis_results where
  "sample_analysis =
     \<lparr> pay_gap =
         Some \<lparr> group_stats = [],
                gaps = [(''B'', \<lparr> gap_percentage = Fin 10,
                                 statistical_significance =
                                   \<lparr> t_statistic = Fin 3, p_value = Fin (1 / 100),
                                     cohens_d = Fin 1, effect_size = ''large'',
                                     significant = True \<rparr>,
                                 gap_reference_group = ''A'' \<rparr>)],
                reference_group = Some ''A'' \<rparr>,
       bias_metrics = None, trends = None \<rparr>"

section \<open>Auxiliary facts\<close>

lemma length_indices_of: "length (indices_of groups g) = count_list groups g"
proof -
  have "filter ((=) g) groups = filter ((=) g) (map (nth groups) [0..<length groups])"
    by (simp add: map_nth)
  also have "\<dots> = map (nth groups) (filter (\<lambda>i. g = groups ! i) [0..<length groups])"
    by (simp add: filter_map comp_def)
  finally have "length (filter ((=) g) groups) = length (filter (\<lambda>i. g = groups ! i) [0..<length groups])"
    by simp
  moreover have "(\<lambda>i. g = groups ! i) = (\<lambda>i. groups ! i = g)" by auto
  ultimately show ?thesis
    by (simp add: indices_of_def count_list_eq_length_filter)
qed

lemma indices_of_empty_iff: "indices_of groups g = [] \<longleftrightarrow> g \<notin> set groups"
  using length_indices_of [of groups g] count_list_0_iff [of groups g] by auto

lemma indices_of_bound: "i \<in> set (indices_of groups g) \<Longrightarrow> i < length groups"
  by (simp add: indices_of_def)

lemma py_getitems_length: "py_getitems xs is = Inr ys \<Longrightarrow> length ys = length is"
  by (induction "is" arbitrary: ys) (auto split: if_splits sum.splits)

lemma py_getitems_total:
  "\<forall>i \<in> set is. i < length xs \<Longrightarrow> \<exists>ys. py_getitems xs is = Inr ys"
  by (induction "is") auto

lemma compute_group_statistics_count:
  "compute_group_statistics lib salaries indices timestamps = Inr st \<Longrightarrow> count st = length indices"
  by (auto simp: compute_group_statistics_def Let_def dest: py_getitems_length
      split: sum.splits option.splits if_splits)

lemma compute_group_statistics_total:
  "\<forall>i \<in> set indices. i < length salaries \<Longrightarrow>
   \<exists>st. compute_group_statistics lib salaries indices None = Inr st"
  using py_getitems_total [of indices salaries]
  by (auto simp: compute_group_statistics_def Let_def)

lemma map_of_dict_set: "map_of (dict_set k v d) k' = (if k' = k then Some v else map_of d k')"
  by (induction d) auto

lemma keys_dict_set: "set (map fst (dict_set k v d)) = insert k (set (map fst d))"
proof -
  have "dom (map_of (dict_set k v d)) = insert k (dom (map_of d))"
    by (auto simp: map_of_dict_set dom_def)
  then show ?thesis by (simp add: dom_map_of_conv_image_fst)
qed

lemma group_stats_loop_absent:
  "indices_of groups g = [] \<Longrightarrow>
   group_stats_loop lib salaries groups ts (g # rest) st =
   group_stats_loop lib salaries groups ts rest st"
  by (cases st) simp

lemma group_stats_loop_raise:
  "indices_of groups g \<noteq> [] \<Longrightarrow>
   compute_group_statistics lib salaries (indices_of groups g) ts = Inl e \<Longrightarrow>
   group_stats_loop lib salaries groups ts (g # rest) st = Inl e"
  by (cases st) (simp add: Let_def)

lemma group_stats_loop_first:
  "indices_of groups g \<noteq> [] \<Longrightarrow>
   compute_group_statistics lib salaries (indices_of groups g) ts = Inr s \<Longrightarrow>
   group_stats_loop lib salaries groups ts (g # rest) (data, None) =
   group_stats_loop lib salaries groups ts rest (dict_set g s data, Some g)"
  by (simp add: Let_def)

lemma group_stats_loop_next:
  "indices_of groups g \<noteq> [] \<Longrightarrow>
   compute_group_statistics lib salaries (indices_of groups g) ts = Inr s \<Longrightarrow>
   map_of (dict_set g s data) r = Some ref_st \<Longrightarrow>
   group_stats_loop lib salaries groups ts (g # rest) (data, Some r) =
   group_stats_loop lib salaries groups ts rest
     (dict_set g s data, if count ref_st < count s then Some g else Some r)"
  by (simp add: Let_def)

lemma group_stats_loop_inv:
  assumes "group_stats_loop lib salaries groups ts labels (data, ref) = Inr (data', ref')"
    and "stats_consistent groups data"
    and "reference_is_largest groups data ref"
  shows "stats_consistent groups data' \<and> reference_is_largest groups data' ref'
         \<and> set (map fst data') = set (map fst data) \<union> (set labels \<inter> set groups)"
  using assms
proof (induction labels arbitrary: data ref)
  case Nil
  then show ?case by simp
next
  case (Cons g rest)
  note run = Cons.prems(1)
  show ?case
  proof (cases "g \<in> set groups")
    case False
    then have "indices_of groups g = []" by (simp add: indices_of_empty_iff)
    from run have "group_stats_loop lib salaries groups ts rest (data, ref) = Inr (data', ref')"
      by (simp only: group_stats_loop_absent [OF \<open>indices_of groups g = []\<close>])
    from Cons.IH [OF this Cons.prems(2,3)] False show ?thesis by auto
  next
    case True
    then have ne: "indices_of groups g \<noteq> []" by (simp add: indices_of_empty_iff)
    have "\<exists>st. compute_group_statistics lib salaries (indices_of groups g) ts = Inr st"
    proof (cases "compute_group_statistics lib salaries (indices_of groups g) ts")
      case (Inl e)
      from run show ?thesis by (simp only: group_stats_loop_raise [OF ne Inl]) simp
    next
      case (Inr st)
      then show ?thesis by simp
    qed
    then obtain st where
      st: "compute_group_statistics lib salaries (indices_of groups g) ts = Inr st" ..
    have cnt: "count st = count_list groups g"
      using compute_group_statistics_count [OF st] by (simp add: length_indices_of)
    define data1 where "data1 = dict_set g st data"
    have keys1: "set (map fst data1) = insert g (set (map fst data))"
      by (simp only: data1_def keys_dict_set)
    have look1: "map_of data1 h = (if h = g then Some st else map_of data h)" for h
      by (simp only: data1_def map_of_dict_set)
    have cons1: "stats_consistent groups data1"
      unfolding stats_consistent_def
    proof (intro ballI)
      fix h assume "h \<in> set (map fst data1)"
      with keys1 have "h = g \<or> h \<in> set (map fst data)" by auto
      with Cons.prems(2) True cnt
      show "h \<in> set groups \<and> map_option count (map_of data1 h) = Some (count_list groups h)"
        by (auto simp: look1 stats_consistent_def)
    qed
    show ?thesis
    proof (cases ref)
      case None
      with Cons.prems(3) have "data = []" by (simp add: reference_is_largest_def)
      then have ref1: "reference_is_largest groups data1 (Some g)"
        by (simp add: reference_is_largest_def data1_def)
      from run have "group_stats_loop lib salaries groups ts rest (data1, Some g) = Inr (data', ref')"
        unfolding None data1_def by (simp only: group_stats_loop_first [OF ne st])
      from Cons.IH [OF this cons1 ref1] keys1 True show ?thesis by auto
    next
      case (Some r)
      with Cons.prems(3) have r: "r \<in> set (map fst data)"
        and rmax: "\<forall>h \<in> set (map fst data). count_list groups h \<le> count_list groups r"
        by (auto simp: reference_is_largest_def)
      from r keys1 have "r \<in> set (map fst data1)" by auto
      with cons1 have opt: "map_option count (map_of data1 r) = Some (count_list groups r)"
        unfolding stats_consistent_def by blast
      then obtain ref_st where ref_st: "map_of data1 r = Some ref_st"
        by (cases "map_of data1 r") simp_all
      with opt have rcnt: "count ref_st = count_list groups r"
        by simp
      define ref1 where "ref1 = (if count ref_st < count st then Some g else Some r)"
      have ref1: "reference_is_largest groups data1 ref1"
        using r rmax keys1 rcnt cnt
        by (auto simp: reference_is_largest_def ref1_def)
      from run have "group_stats_loop lib salaries groups ts rest (data1, ref1) = Inr (data', ref')"
        unfolding Some data1_def ref1_def
        by (simp only: group_stats_loop_next [OF ne st ref_st [unfolded data1_def]])
      from Cons.IH [OF this cons1 ref1] keys1 True show ?thesis by auto
    qed
  qed
qed

lemma compute_pay_gap_fields:
  assumes "compute_pay_gap lib labels salaries groups ts = Inr res"
    and "group_stats_loop lib salaries groups ts labels ([], None) = Inr (data, ref)"
  shows "group_stats res = data \<and> reference_group res = ref"
  using assms
  by (auto simp: compute_pay_gap_def split: option.splits if_splits sum.splits)

lemma compute_pay_gap_loop_returns:
  assumes "compute_pay_gap lib labels salaries groups ts = Inr res"
  shows "\<exists>data ref. group_stats_loop lib salaries groups ts labels ([], None) = Inr (data, ref)"
proof (cases "group_stats_loop lib salaries groups ts labels ([], None)")
  case (Inl e)
  with assms show ?thesis by (simp add: compute_pay_gap_def)
next
  case (Inr p)
  then show ?thesis by (cases p) simp
qed

lemma set_iteration_single:
  assumes "set_iteration labels groups" and "set groups = {g}"
  shows "labels = [g]"
proof -
  from assms have d: "distinct labels" and s: "set labels = {g}"
    by (simp_all add: set_iteration_def)
  from distinct_card [OF d] s have "length labels = 1" by simp
  then obtain x where "labels = [x]" by (cases labels) auto
  with s show ?thesis by simp
qed

lemma group_stats_loop_single:
  "indices_of groups g \<noteq> [] \<Longrightarrow>
   group_stats_loop lib salaries groups ts [g] ([], None) =
     (case compute_group_statistics lib salaries (indices_of groups g) ts of
        Inl e \<Rightarrow> Inl e | Inr st \<Rightarrow> Inr ([(g, st)], Some g))"
  by (simp add: Let_def split: sum.splits)

lemmas pay_gap_eval =
  compute_pay_gap_def indices_of_def compute_group_statistics_def np_median_def Let_def
  compute_group_gaps_def py_truediv_def upt_rec fl_sub_def salaries_of_def

lemma fl_add_commute: "fl_add a b = fl_add b a"
  by (cases a; cases b) simp_all

lemma fl_neg_add: "fl_add (fl_neg a) (fl_neg b) = fl_neg (fl_add a b)"
  by (cases a; cases b) simp_all

lemma fl_neg_neg: "fl_neg (fl_neg a) = a"
  by (cases a) simp_all

lemma fl_sub_swap: "fl_sub b a = fl_neg (fl_sub a b)"
  by (simp add: fl_sub_def fl_neg_add [symmetric] fl_neg_neg fl_add_commute)

lemma fl_div_neg: "fl_div (fl_neg x) s = fl_neg (fl_div x s)"
  by (cases x; cases s) auto

lemma fl_abs_neg: "fl_abs (fl_neg x) = fl_abs x"
  by (cases x) simp_all

lemma pooled_sd_commute: "pooled_sd g2 g1 = pooled_sd g1 g2"
  by (simp add: pooled_sd_def Let_def fl_add_commute add.commute)

lemma cohens_d_swap:
  "cohens_d (compute_statistical_significance lib g2 g1)
     = fl_neg (cohens_d (compute_statistical_significance lib g1 g2))"
  by (simp add: compute_statistical_significance_def pooled_sd_commute [of g2 g1]
      fl_sub_swap [of "np_mean g2"] fl_div_neg Let_def split: prod.splits)

lemma mean_nonneg: "\<forall>x \<in> set xs. 0 \<le> x \<Longrightarrow> 0 \<le> mean xs"
  by (simp add: mean_def sum_list_nonneg)

lemma np_var_Fin: "xs \<noteq> [] \<Longrightarrow> \<exists>v. np_var xs = Fin v \<and> 0 \<le> v"
  by (simp add: np_var_def mean_nonneg)

lemma pooled_sd_Fin:
  assumes "2 \<le> length g1" and "2 \<le> length g2"
  shows "\<exists>s. pooled_sd g1 g2 = Fin s \<and> 0 \<le> s"
proof -
  from assms have "g1 \<noteq> []" "g2 \<noteq> []" by auto
  then obtain v1 v2 where v: "np_var g1 = Fin v1" "0 \<le> v1" "np_var g2 = Fin v2" "0 \<le> v2"
    using np_var_Fin by blast
  let ?n = "int (length g1) + int (length g2) - 2"
  let ?num = "of_int (int (length g1) - 1) * v1 + of_int (int (length g2) - 1) * v2"
  have n: "0 < ?n" using assms by simp
  have num: "0 \<le> ?num" using v assms by simp
  have "pooled_sd g1 g2 = fl_sqrt (Fin (?num / of_int ?n))"
    using n by (simp add: pooled_sd_def Let_def of_py_int_def v)
  moreover have "0 \<le> ?num / of_int ?n" using n num by simp
  ultimately show ?thesis by simp
qed

lemma set_iteration_pair:
  assumes "set_iteration labels groups" and "set groups = {a, b}" and "a \<noteq> b"
  shows "labels = [a, b] \<or> labels = [b, a]"
proof -
  from assms have d: "distinct labels" and s: "set labels = {a, b}"
    by (simp_all add: set_iteration_def)
  from distinct_card [OF d] s assms(3) have "length labels = 2" by simp
  then obtain x y where xy: "labels = [x, y]"
    by (cases labels; cases "tl labels") auto
  with s d show ?thesis by (auto simp: doubleton_eq_iff)
qed

lemma weights_pos: "0 < weights c"
  by (simp add: weights_def)

lemma weighted_sums:
  assumes "list_all unit_score cs"
  shows "\<exists>u v. 0 \<le> u \<and> u \<le> v \<and> (cs \<noteq> [] \<longrightarrow> 0 < v)
     \<and> (\<forall>a. foldl fl_add (Fin a)
               (map (\<lambda>(component, score). fl_mul (Fin (weights component)) score) cs)
             = Fin (a + u))
     \<and> (\<forall>b. foldl fl_add (Fin b) (map (\<lambda>(component, score). Fin (weights component)) cs)
             = Fin (b + v))"
  using assms
proof (induction cs)
  case Nil
  show ?case by (intro exI [of _ 0]) simp
next
  case (Cons c cs)
  obtain n x where c: "c = (n, x)" by (cases c)
  with Cons.prems obtain s where x: "x = Fin s" and s: "0 \<le> s" "s \<le> 1"
    by (cases x) (auto simp: unit_score_def)
  from Cons obtain u v where uv: "0 \<le> u" "u \<le> v"
    and fu: "\<And>a. foldl fl_add (Fin a)
               (map (\<lambda>(component, score). fl_mul (Fin (weights component)) score) cs)
             = Fin (a + u)"
    and fv: "\<And>b. foldl fl_add (Fin b) (map (\<lambda>(component, score). Fin (weights component)) cs)
             = Fin (b + v)"
    by auto
  have w: "0 < weights n" by (rule weights_pos)
  have le: "weights n * s \<le> weights n" using w s by (simp add: mult_left_le)
  show ?case
  proof (rule exI [of _ "weights n * s + u"], rule exI [of _ "weights n + v"],
      intro conjI allI impI)
    show "0 \<le> weights n * s + u" using w s uv by simp
    show "weights n * s + u \<le> weights n + v" using le uv by simp
    show "0 < weights n + v" using w uv by simp
    show "foldl fl_add (Fin a)
            (map (\<lambda>(component, score). fl_mul (Fin (weights component)) score) (c # cs))
          = Fin (a + (weights n * s + u))" for a
      by (simp add: c x fu add.assoc)
    show "foldl fl_add (Fin b) (map (\<lambda>(component, score). Fin (weights component)) (c # cs))
          = Fin (b + (weights n + v))" for b
      by (simp add: c fv add.assoc)
  qed
qed

lemma foldl_py_max2_mem: "foldl py_max2 x xs \<in> set (x # xs)"
  by (induction xs arbitrary: x) (auto simp: py_max2_def)

lemma py_max_default_mem: "xs \<noteq> [] \<Longrightarrow> py_max_default xs d \<in> set xs"
  using foldl_py_max2_mem by (cases xs) (auto simp: py_max_default_def)

lemma gap_score_unit:
  "\<exists>s. py_max2 (Fin 0) (fl_sub (Fin 1) (fl_div (fl_abs y) (Fin 20))) = Fin s \<and> 0 \<le> s \<and> s \<le> 1"
  by (cases y) (auto simp: py_max2_def fl_sub_def)

lemma pay_gap_component_unit: "list_all unit_score (pay_gap_component ar)"
proof (cases "pay_gap ar")
  case None
  then show ?thesis by (simp add: pay_gap_component_def)
next
  case (Some pg)
  let ?xs = "map (\<lambda>(k, g). fl_abs (gap_percentage g)) (gaps pg)"
  have "\<exists>y. py_max_default ?xs (Fin 0) = fl_abs y"
  proof (cases "?xs = []")
    case True
    then have "py_max_default ?xs (Fin 0) = fl_abs (Fin 0)" by (simp add: py_max_default_def)
    then show ?thesis ..
  next
    case False
    from py_max_default_mem [OF this, of "Fin 0"] show ?thesis by auto
  qed
  then obtain y where "py_max_default ?xs (Fin 0) = fl_abs y" ..
  with gap_score_unit [of y] Some show ?thesis
    by (auto simp: pay_gap_component_def Let_def unit_score_def)
qed

lemma sum_list_bounds:
  "\<forall>x \<in> set xs. 0 \<le> x \<and> x \<le> (1::real) \<Longrightarrow> 0 \<le> sum_list xs \<and> sum_list xs \<le> of_nat (length xs)"
  by (induction xs) auto

lemma mean_unit:
  assumes "xs \<noteq> []" and "\<forall>x \<in> set xs. 0 \<le> x \<and> x \<le> (1::real)"
  shows "0 \<le> mean xs \<and> mean xs \<le> 1"
  using sum_list_bounds [OF assms(2)] assms(1) by (simp add: mean_def divide_le_eq)

lemma bias_scores_unit:
  "list_all (\<lambda>(attr, m). \<bar>demographic_parity (overall m)\<bar> \<le> 1
                         \<and> \<bar>equalized_odds (overall m)\<bar> \<le> 1) metrics \<Longrightarrow>
   list_all (\<lambda>x. 0 \<le> x \<and> x \<le> (1::real))
     (concat (map (\<lambda>(attr, attr_metrics).
                               [1 - \<bar>demographic_parity (overall attr_metrics)\<bar>,
                                1 - \<bar>equalized_odds (overall attr_metrics)\<bar>]) metrics))"
proof (induction metrics)
  case Nil
  then show ?case by simp
next
  case (Cons p metrics)
  obtain attr m where p: "p = (attr, m)" by (cases p)
  from Cons.prems p have dp: "\<bar>demographic_parity (overall m)\<bar> \<le> 1"
    and eo: "\<bar>equalized_odds (overall m)\<bar> \<le> 1"
    and rest: "list_all (\<lambda>(attr, m). \<bar>demographic_parity (overall m)\<bar> \<le> 1
                         \<and> \<bar>equalized_odds (overall m)\<bar> \<le> 1) metrics"
    by simp_all
  from Cons.IH [OF rest] dp eo show ?case
    by (simp add: p)
qed

lemma bias_component_unit:
  assumes "bias_values_in_range ar"
  shows "list_all unit_score (bias_component ar)"
proof (cases "bias_metrics ar")
  case None
  then show ?thesis by (simp add: bias_component_def)
next
  case (Some metrics)
  let ?scores = "concat (map (\<lambda>(attr, attr_metrics).
                               [1 - \<bar>demographic_parity (overall attr_metrics)\<bar>,
                                1 - \<bar>equalized_odds (overall attr_metrics)\<bar>]) metrics)"
  from assms Some have "list_all (\<lambda>x. 0 \<le> x \<and> x \<le> 1) ?scores"
    by (intro bias_scores_unit) (simp add: bias_values_in_range_def)
  then have "\<forall>x \<in> set ?scores. 0 \<le> x \<and> x \<le> 1"
    by (simp only: list_all_iff)
  then have "?scores \<noteq> [] \<Longrightarrow> 0 \<le> mean ?scores \<and> mean ?scores \<le> 1"
    by (rule mean_unit [rotated])
  with Some show ?thesis
    by (simp add: bias_component_def Let_def unit_score_def np_mean_def)
qed

lemma trend_component_unit: "list_all unit_score (trend_component ar)"
  by (simp add: trend_component_def unit_score_def split: option.splits)

lemma py_max2_exceeds:
  "a \<noteq> NaN \<Longrightarrow> b \<noteq> NaN \<Longrightarrow>
   py_max2 a b \<noteq> NaN \<and> (fl_less c (py_max2 a b) \<longleftrightarrow> fl_less c a \<or> fl_less c b)"
  by (cases a; cases b; cases c) (auto simp: py_max2_def)

lemma foldl_py_max2_exceeds:
  "a \<noteq> NaN \<Longrightarrow> list_all (\<lambda>x. x \<noteq> NaN) xs \<Longrightarrow>
   fl_less c (foldl py_max2 a xs) \<longleftrightarrow> fl_less c a \<or> list_ex (fl_less c) xs"
proof (induction xs arbitrary: a)
  case Nil
  then show ?case by simp
next
  case (Cons x xs)
  then have x: "x \<noteq> NaN" and xs: "list_all (\<lambda>x. x \<noteq> NaN) xs" by simp_all
  from py_max2_exceeds [OF Cons.prems(1) x, of c]
  have m: "py_max2 a x \<noteq> NaN" "fl_less c (py_max2 a x) \<longleftrightarrow> fl_less c a \<or> fl_less c x"
    by simp_all
  from Cons.IH [OF m(1) xs] m(2) show ?case by auto
qed

lemma py_max_default_exceeds:
  assumes "list_all (\<lambda>x. x \<noteq> NaN) xs"
  shows "fl_less (Fin 5) (py_max_default xs (Fin 0)) \<longleftrightarrow> list_ex (fl_less (Fin 5)) xs"
proof (cases xs)
  case Nil
  then show ?thesis by (simp add: py_max_default_def)
next
  case (Cons x rest)
  with assms have "x \<noteq> NaN" "list_all (\<lambda>x. x \<noteq> NaN) rest" by simp_all
  from foldl_py_max2_exceeds [OF this, of "Fin 5"] Cons show ?thesis
    by (simp add: py_max_default_def)
qed

lemma bias_recommendations_category:
  "\<not> list_ex is_pay_equity_high (bias_recommendations analysis)"
proof -
  have "\<not> list_ex is_pay_equity_high
          (concat (map (\<lambda>(attr, metrics).
                    if significant_disparities metrics \<noteq> [] then
                      [\<lparr> category = ''bias_mitigation'',
                         priority = ''high'',
                         title = ''Address '' @ attr @ '' Bias'',
                         description = ''Significant disparities detected in '' @ attr,
                         actions = [''Review decision processes'',
                                    ''Implement bias mitigation strategies'',
                                    ''Monitor outcomes closely''],
                         impact = ''high'',
                         effort = ''high'',
                         timeframe = ''short_term'' \<rparr>]
                    else []) ms))" for ms
  proof (induction ms)
    case Nil
    show ?case by simp
  next
    case (Cons p ms)
    obtain attr m where p: "p = (attr, m)" by (cases p)
    from Cons show ?case by (simp add: p is_pay_equity_high_def)
  qed
  then show ?thesis by (simp only: bias_recommendations_def)
qed

lemma trend_recommendations_category:
  "\<not> list_ex is_pay_equity_high (trend_recommendations analysis)"
  by (simp add: trend_recommendations_def is_pay_equity_high_def)

lemma pay_equity_recommendations_category:
  "list_ex is_pay_equity_high (pay_equity_recommendations analysis)
     \<longleftrightarrow> fl_less (Fin 5)
           (case pay_equity analysis of None \<Rightarrow> Fin 0 | Some equity \<Rightarrow> largest_gap equity)"
  by (simp add: pay_equity_recommendations_def is_pay_equity_high_def)

lemma report_recommendations:
  "recommendations (report_summary (generate_fairness_report now ar))
     = generate_smart_recommendations
         (report_detailed_analysis (generate_fairness_report now ar))"
  by (simp add: generate_fairness_report_def Let_def)

lemma report_pay_equity:
  "pay_equity (report_detailed_analysis (generate_fairness_report now ar))
     = map_option analyse_pay_equity (pay_gap ar)"
  by (simp add: generate_fairness_report_def Let_def)

lemma compute_group_statistics_without_sklearn:
  assumes "\<not> sklearn_available lib"
    and "indices \<noteq> []"
    and "\<forall>i \<in> set indices. i < length salaries"
    and "\<forall>i \<in> set indices. i < length ts"
  shows "compute_group_statistics lib salaries indices (Some ts) = Inl ImportError"
proof -
  from py_getitems_total [OF assms(3)] obtain gs where gs: "py_getitems salaries indices = Inr gs"
    by blast
  from py_getitems_total [OF assms(4)] obtain gt where gt: "py_getitems ts indices = Inr gt"
    by blast
  from py_getitems_length [OF gt] assms(2) have "gt \<noteq> []" by auto
  with assms(1) have "compute_temporal_trend lib gs gt = Inl ImportError"
    by (simp add: compute_temporal_trend_def Let_def)
  moreover from assms(2,4) have "ts \<noteq> []" by (cases indices) auto
  ultimately show ?thesis
    by (simp add: compute_group_statistics_def gs gt)
qed

lemma compute_pay_gap_without_sklearn:
  assumes "\<not> sklearn_available lib"
    and "set_iteration group_labels groups"
    and "groups \<noteq> []"
    and "length groups \<le> length salaries"
    and "length groups \<le> length ts"
  shows "compute_pay_gap lib group_labels salaries groups (Some ts) = Inl ImportError"
proof -
  from assms(2,3) have "group_labels \<noteq> []" by (auto simp: set_iteration_def)
  then obtain g rest where labels: "group_labels = g # rest" by (cases group_labels) auto
  with assms(2) have "g \<in> set groups" by (auto simp: set_iteration_def)
  then have ne: "indices_of groups g \<noteq> []" by (simp add: indices_of_empty_iff)
  have b1: "\<forall>i \<in> set (indices_of groups g). i < length salaries"
    using indices_of_bound assms(4) by fastforce
  have b2: "\<forall>i \<in> set (indices_of groups g). i < length ts"
    using indices_of_bound assms(5) by fastforce
  from compute_group_statistics_without_sklearn [OF assms(1) ne b1 b2]
  have "group_stats_loop lib salaries groups (Some ts) group_labels ([], None) = Inl ImportError"
    unfolding labels by (rule group_stats_loop_raise [OF ne])
  then show ?thesis by (simp add: compute_pay_gap_def)
qed

section \<open>The claims\<close>

subsection \<open>Statistical significance\<close>

text \<open>
  C1. The claim: when the pooled variance of the two groups is zero, the record has
  \<^verbatim>\<open>cohens_d\<close> equal to 0 (not NaN). The code divides the difference of the means by
  the pooled standard deviation with numpy's division and has no guard: on the two
  constant and equal groups \<^verbatim>\<open>[5, 5]\<close> and \<^verbatim>\<open>[5, 5]\<close> the pooled standard
  deviation is 0 and \<^verbatim>\<open>cohens_d\<close> is \<^verbatim>\<open>0/0\<close>, which is NaN, whatever the t-test
  returns.
\<close>

theorem cohens_d_nan_on_constant_groups:
  "pooled_sd [5, 5] [5, 5] = Fin 0
   \<and> cohens_d (compute_statistical_significance lib [5, 5] [5, 5]) = NaN"
  by (simp add: compute_statistical_significance_def pooled_sd_def np_mean_def np_var_def
      mean_def of_py_int_def fl_sub_def Let_def split: prod.splits)

text \<open>
  C10. For two groups of at least two elements each with a nonzero pooled standard
  deviation, swapping the arguments negates \<^verbatim>\<open>t_statistic\<close> and \<^verbatim>\<open>cohens_d\<close> and
  leaves \<^verbatim>\<open>p_value\<close>, \<^verbatim>\<open>effect_size\<close> and \<^verbatim>\<open>significant\<close> unchanged.
  \<^verbatim>\<open>cohens_d\<close> (a finite number under these hypotheses) and \<^verbatim>\<open>effect_size\<close> are
  computed by the module; the statistic and the p-value are passed through from the
  library's t-test, which is assumed to negate its statistic and keep its p-value when
  its arguments are swapped.
\<close>

theorem swap_negates_effect:
  assumes "2 \<le> length g1" and "2 \<le> length g2"
    and "pooled_sd g1 g2 \<noteq> Fin 0"
    and "ttest_ind lib g2 g1
           = (fl_neg (fst (ttest_ind lib g1 g2)), snd (ttest_ind lib g1 g2))"
  shows "t_statistic (compute_statistical_significance lib g2 g1)
           = fl_neg (t_statistic (compute_statistical_significance lib g1 g2))
       \<and> cohens_d (compute_statistical_significance lib g2 g1)
           = fl_neg (cohens_d (compute_statistical_significance lib g1 g2))
       \<and> (\<exists>d. cohens_d (compute_statistical_significance lib g1 g2) = Fin d)
       \<and> p_value (compute_statistical_significance lib g2 g1)
           = p_value (compute_statistical_significance lib g1 g2)
       \<and> effect_size (compute_statistical_significance lib g2 g1)
           = effect_size (compute_statistical_significance lib g1 g2)
       \<and> significant (compute_statistical_significance lib g2 g1)
           = significant (compute_statistical_significance lib g1 g2)"
proof -
  obtain t p where tp: "ttest_ind lib g1 g2 = (t, p)" by (cases "ttest_ind lib g1 g2")
  with assms(4) have tp': "ttest_ind lib g2 g1 = (fl_neg t, p)" by simp
  have t: "t_statistic (compute_statistical_significance lib g2 g1)
           = fl_neg (t_statistic (compute_statistical_significance lib g1 g2))"
    by (simp add: compute_statistical_significance_def tp tp' Let_def)
  have pv: "p_value (compute_statistical_significance lib g2 g1)
           = p_value (compute_statistical_significance lib g1 g2)"
    by (simp add: compute_statistical_significance_def tp tp' Let_def)
  have sg: "significant (compute_statistical_significance lib g2 g1)
           = significant (compute_statistical_significance lib g1 g2)"
    by (simp add: compute_statistical_significance_def tp tp' Let_def)
  have es: "effect_size (compute_statistical_significance lib g2 g1)
           = effect_size (compute_statistical_significance lib g1 g2)"
    by (simp add: compute_statistical_significance_def pooled_sd_commute [of g2 g1]
        fl_sub_swap [of "np_mean g2"] fl_div_neg fl_abs_neg Let_def split: prod.splits)
  from pooled_sd_Fin [OF assms(1,2)] assms(3)
  obtain s where s: "pooled_sd g1 g2 = Fin s" "s \<noteq> 0" by auto
  from assms(1,2) have "g1 \<noteq> []" "g2 \<noteq> []" by auto
  then have fin: "\<exists>d. cohens_d (compute_statistical_significance lib g1 g2) = Fin d"
    by (simp add: compute_statistical_significance_def s np_mean_def fl_sub_def Let_def
        split: prod.splits)
  from t cohens_d_swap [of lib g2 g1] fin pv es sg show ?thesis by blast
qed

theorem swap_negates_effect_witness:
  "2 \<le> length [1, 2 :: real] \<and> 2 \<le> length [3, 5 :: real]
   \<and> pooled_sd [1, 2] [3, 5] \<noteq> Fin 0
   \<and> cohens_d (compute_statistical_significance no_libraries [3, 5] [1, 2])
        = fl_neg (cohens_d (compute_statistical_significance no_libraries [1, 2] [3, 5]))
   \<and> t_statistic (compute_statistical_significance no_libraries [3, 5] [1, 2])
        = fl_neg (t_statistic (compute_statistical_significance no_libraries [1, 2] [3, 5]))"
proof -
  have h1: "2 \<le> length [1, 2 :: real]" and h2: "2 \<le> length [3, 5 :: real]" by simp_all
  have h3: "pooled_sd [1, 2] [3, 5] \<noteq> Fin 0"
    by (simp add: pooled_sd_def np_var_def mean_def of_py_int_def power2_eq_square)
  have h4: "ttest_ind no_libraries [3, 5] [1, 2]
      = (fl_neg (fst (ttest_ind no_libraries [1, 2] [3, 5])),
         snd (ttest_ind no_libraries [1, 2] [3, 5]))"
    by (simp add: no_libraries_def np_mean_def mean_def fl_sub_def)
  from swap_negates_effect [OF h1 h2 h3 h4] h1 h2 h3 show ?thesis by blast
qed

subsection \<open>Pay gaps\<close>

text \<open>
  C2. For every non-empty input on which \<^verbatim>\<open>compute_pay_gap\<close> returns, in whatever
  order the set of labels is iterated, the reference group is a group of the input
  whose count in \<^verbatim>\<open>group_stats\<close> is the maximum number of observations over all
  groups present.
\<close>

theorem reference_group_has_max_count:
  assumes "set_iteration group_labels groups"
    and "groups \<noteq> []"
    and "compute_pay_gap lib group_labels salaries groups timestamps = Inr res"
  shows "\<exists>r. reference_group res = Some r \<and> r \<in> set groups \<and>
           map_option count (map_of (group_stats res) r)
             = Some (Max (count_list groups ` set groups))"
proof -
  from assms(3) obtain data ref where
    run: "group_stats_loop lib salaries groups timestamps group_labels ([], None) = Inr (data, ref)"
    using compute_pay_gap_loop_returns by blast
  have fields: "group_stats res = data" "reference_group res = ref"
    using compute_pay_gap_fields [OF assms(3) run] by simp_all
  have "stats_consistent groups []" by (simp add: stats_consistent_def)
  moreover have "reference_is_largest groups [] None" by (simp add: reference_is_largest_def)
  ultimately have inv: "stats_consistent groups data" "reference_is_largest groups data ref"
    and keys: "set (map fst data) = set group_labels \<inter> set groups"
    using group_stats_loop_inv [OF run] by simp_all
  from keys assms(1) have keys': "set (map fst data) = set groups"
    by (simp add: set_iteration_def)
  with assms(2) have "data \<noteq> []" by auto
  have "case ref of None \<Rightarrow> data = []
        | Some r \<Rightarrow> r \<in> set groups \<and> (\<forall>g \<in> set groups. count_list groups g \<le> count_list groups r)"
    using inv(2) unfolding reference_is_largest_def keys' .
  with \<open>data \<noteq> []\<close> obtain r where r: "ref = Some r" "r \<in> set groups"
    and le: "\<forall>g \<in> set groups. count_list groups g \<le> count_list groups r"
    by (cases ref) simp_all
  have "Max (count_list groups ` set groups) = count_list groups r"
    using r(2) le by (intro Max_eqI) auto
  moreover have "map_option count (map_of data r) = Some (count_list groups r)"
    using inv(1) r(2) keys' unfolding stats_consistent_def by blast
  ultimately show ?thesis using r fields by simp
qed

theorem reference_group_has_max_count_witness:
  "set_iteration [''A'', ''B''] [''A'', ''A'', ''B'']
   \<and> [''A'', ''A'', ''B''] \<noteq> []
   \<and> compute_pay_gap no_libraries [''A'', ''B''] [1, 2, 3] [''A'', ''A'', ''B''] None
       = Inr (projr (compute_pay_gap no_libraries [''A'', ''B''] [1, 2, 3]
                       [''A'', ''A'', ''B''] None))
   \<and> (\<exists>r. reference_group (projr (compute_pay_gap no_libraries [''A'', ''B''] [1, 2, 3]
                                   [''A'', ''A'', ''B''] None)) = Some r
          \<and> r \<in> set [''A'', ''A'', ''B'']
          \<and> map_option count
               (map_of (group_stats (projr (compute_pay_gap no_libraries [''A'', ''B'']
                                              [1, 2, 3] [''A'', ''A'', ''B''] None))) r)
              = Some (Max (count_list [''A'', ''A'', ''B''] ` set [''A'', ''A'', ''B''])))"
proof -
  have h1: "set_iteration [''A'', ''B''] [''A'', ''A'', ''B'']"
    by (auto simp: set_iteration_def)
  have h2: "[''A'', ''A'', ''B''] \<noteq> []" by simp
  have "\<exists>res. compute_pay_gap no_libraries [''A'', ''B''] [1, 2, 3] [''A'', ''A'', ''B''] None
          = Inr res"
    by (simp add: pay_gap_eval)
  then have h3: "compute_pay_gap no_libraries [''A'', ''B''] [1, 2, 3] [''A'', ''A'', ''B''] None
       = Inr (projr (compute_pay_gap no_libraries [''A'', ''B''] [1, 2, 3]
                       [''A'', ''A'', ''B''] None))"
    by auto
  from reference_group_has_max_count [OF h1 h2 h3] h1 h2 h3 show ?thesis by blast
qed

text \<open>
  C5. The claim: with at least two groups and a reference group whose median salary
  is exactly zero, the computation does not crash and returns a fallback gap. The code
  divides Python floats by the reference median without a guard: on salaries
  \<^verbatim>\<open>[0, 0, 5]\<close> with groups \<^verbatim>\<open>A, A, B\<close> the reference is \<^verbatim>\<open>A\<close> (count 2, median 0)
  in either iteration order, and the call raises \<^verbatim>\<open>ZeroDivisionError\<close>.
\<close>

theorem zero_reference_median_raises:
  "compute_pay_gap lib [''A'', ''B''] [0, 0, 5] [''A'', ''A'', ''B''] None = Inl ZeroDivisionError
   \<and> compute_pay_gap lib [''B'', ''A''] [0, 0, 5] [''A'', ''A'', ''B''] None = Inl ZeroDivisionError"
  by (simp add: pay_gap_eval)

text \<open>
  C7. When the input has exactly one distinct group label, every result that
  \<^verbatim>\<open>compute_pay_gap\<close> returns has an empty \<^verbatim>\<open>gaps\<close> mapping and that label as
  \<^verbatim>\<open>reference_group\<close>; and without timestamps it does return whenever there is a
  salary for every group entry.
\<close>

theorem single_group_no_gaps:
  assumes "set groups = {g}" and "set_iteration group_labels groups"
  shows "(compute_pay_gap lib group_labels salaries groups timestamps = Inr res
            \<longrightarrow> gaps res = [] \<and> reference_group res = Some g)
       \<and> (length groups \<le> length salaries
            \<longrightarrow> (\<exists>r. compute_pay_gap lib group_labels salaries groups None = Inr r))"
proof -
  have labels: "group_labels = [g]" using set_iteration_single [OF assms(2,1)] .
  have ne: "indices_of groups g \<noteq> []" using assms(1) by (simp add: indices_of_empty_iff)
  have one: "compute_pay_gap lib [g] salaries groups ts =
      (case compute_group_statistics lib salaries (indices_of groups g) ts of
         Inl e \<Rightarrow> Inl e
       | Inr st \<Rightarrow> Inr \<lparr> group_stats = [(g, st)], gaps = [], reference_group = Some g \<rparr>)" for ts
  proof (cases "compute_group_statistics lib salaries (indices_of groups g) ts")
    case (Inl e)
    with ne show ?thesis by (simp add: compute_pay_gap_def Let_def)
  next
    case (Inr st)
    with ne show ?thesis by (simp add: compute_pay_gap_def Let_def)
  qed
  have first: "compute_pay_gap lib group_labels salaries groups timestamps = Inr res
            \<longrightarrow> gaps res = [] \<and> reference_group res = Some g"
    unfolding labels one by (auto split: sum.splits)
  have second: "length groups \<le> length salaries
            \<longrightarrow> (\<exists>r. compute_pay_gap lib group_labels salaries groups None = Inr r)"
  proof
    assume len: "length groups \<le> length salaries"
    have "\<forall>i \<in> set (indices_of groups g). i < length salaries"
      using indices_of_bound len by fastforce
    from compute_group_statistics_total [OF this]
    obtain st where "compute_group_statistics lib salaries (indices_of groups g) None = Inr st"
      by blast
    then show "\<exists>r. compute_pay_gap lib group_labels salaries groups None = Inr r"
      unfolding labels one by simp
  qed
  from first second show ?thesis by blast
qed

theorem single_group_no_gaps_witness:
  "set [''A'', ''A''] = {''A''}
   \<and> set_iteration [''A''] [''A'', ''A'']
   \<and> compute_pay_gap no_libraries [''A''] [1, 2] [''A'', ''A''] None
       = Inr (projr (compute_pay_gap no_libraries [''A''] [1, 2] [''A'', ''A''] None))
   \<and> length [''A'', ''A''] \<le> length [1, 2 :: real]
   \<and> gaps (projr (compute_pay_gap no_libraries [''A''] [1, 2] [''A'', ''A''] None)) = []
   \<and> reference_group (projr (compute_pay_gap no_libraries [''A''] [1, 2] [''A'', ''A''] None))
       = Some ''A''"
proof -
  have h1: "set [''A'', ''A''] = {''A''}" by simp
  have h2: "set_iteration [''A''] [''A'', ''A'']" by (simp add: set_iteration_def)
  have h4: "length [''A'', ''A''] \<le> length [1, 2 :: real]" by simp
  from single_group_no_gaps [OF h1 h2, of no_libraries "[1, 2]" None
      "projr (compute_pay_gap no_libraries [''A''] [1, 2] [''A'', ''A''] None)"] h4
  have h3: "compute_pay_gap no_libraries [''A''] [1, 2] [''A'', ''A''] None
       = Inr (projr (compute_pay_gap no_libraries [''A''] [1, 2] [''A'', ''A''] None))"
    by auto
  from single_group_no_gaps [OF h1 h2, of no_libraries "[1, 2]" None
      "projr (compute_pay_gap no_libraries [''A''] [1, 2] [''A'', ''A''] None)"] h1 h2 h3 h4
  show ?thesis by blast
qed

text \<open>
  C3. The claim: on salaries \<^verbatim>\<open>[50000, 50000, 60000, 60000]\<close> with groups
  \<^verbatim>\<open>A, A, B, B\<close> the gap of the non-reference group is exactly 20 or -20. The gap is
  the difference of the medians divided by the median of the reference: when the set of
  labels is iterated with \<^verbatim>\<open>B\<close> first, \<^verbatim>\<open>B\<close> is the reference and the gap of \<^verbatim>\<open>A\<close> is
  \<^verbatim>\<open>10000 / 60000 * 100 = 50/3\<close>, neither 20 nor -20.
\<close>

theorem tied_groups_counterexample:
  "reference_group_of (compute_pay_gap no_libraries [''B'', ''A'']
       [50000, 50000, 60000, 60000] [''A'', ''A'', ''B'', ''B''] None) = Some ''B''
   \<and> gap_percentage_of (compute_pay_gap no_libraries [''B'', ''A'']
       [50000, 50000, 60000, 60000] [''A'', ''A'', ''B'', ''B''] None) ''A'' = Some (Fin (50 / 3))
   \<and> gap_percentage_of (compute_pay_gap no_libraries [''B'', ''A'']
       [50000, 50000, 60000, 60000] [''A'', ''A'', ''B'', ''B''] None) ''A'' \<noteq> Some (Fin 20)
   \<and> gap_percentage_of (compute_pay_gap no_libraries [''B'', ''A'']
       [50000, 50000, 60000, 60000] [''A'', ''A'', ''B'', ''B''] None) ''A'' \<noteq> Some (Fin (- 20))"
  by (simp add: pay_gap_eval reference_group_of_def gap_percentage_of_def)

text \<open>
  C3, as the code has it: in either iteration order both groups have count 2, the
  medians are 50000 for \<^verbatim>\<open>A\<close> and 60000 for \<^verbatim>\<open>B\<close>, and the gap is exactly -20 for
  \<^verbatim>\<open>B\<close> when \<^verbatim>\<open>A\<close> is the reference, and exactly 50/3 for \<^verbatim>\<open>A\<close> when \<^verbatim>\<open>B\<close> is the
  reference.
\<close>

theorem tied_groups_gap:
  assumes "set_iteration group_labels [''A'', ''A'', ''B'', ''B'']"
  shows "group_stat_of (compute_pay_gap lib group_labels [50000, 50000, 60000, 60000]
            [''A'', ''A'', ''B'', ''B''] None) count ''A'' = Some 2
       \<and> group_stat_of (compute_pay_gap lib group_labels [50000, 50000, 60000, 60000]
            [''A'', ''A'', ''B'', ''B''] None) count ''B'' = Some 2
       \<and> group_stat_of (compute_pay_gap lib group_labels [50000, 50000, 60000, 60000]
            [''A'', ''A'', ''B'', ''B''] None) median_salary ''A'' = Some (Fin 50000)
       \<and> group_stat_of (compute_pay_gap lib group_labels [50000, 50000, 60000, 60000]
            [''A'', ''A'', ''B'', ''B''] None) median_salary ''B'' = Some (Fin 60000)
       \<and> (reference_group_of (compute_pay_gap lib group_labels [50000, 50000, 60000, 60000]
            [''A'', ''A'', ''B'', ''B''] None) = Some ''A''
            \<and> gap_percentage_of (compute_pay_gap lib group_labels [50000, 50000, 60000, 60000]
            [''A'', ''A'', ''B'', ''B''] None) ''B'' = Some (Fin (- 20))
          \<or> reference_group_of (compute_pay_gap lib group_labels [50000, 50000, 60000, 60000]
            [''A'', ''A'', ''B'', ''B''] None) = Some ''B''
            \<and> gap_percentage_of (compute_pay_gap lib group_labels [50000, 50000, 60000, 60000]
            [''A'', ''A'', ''B'', ''B''] None) ''A'' = Some (Fin (50 / 3)))"
proof -
  have "set [''A'', ''A'', ''B'', ''B''] = {''A'', ''B''}" by auto
  from set_iteration_pair [OF assms(1) this]
  have "group_labels = [''A'', ''B''] \<or> group_labels = [''B'', ''A'']" by simp
  then show ?thesis
  proof
    assume "group_labels = [''A'', ''B'']"
    then show ?thesis
      by (simp add: pay_gap_eval reference_group_of_def gap_percentage_of_def group_stat_of_def)
  next
    assume "group_labels = [''B'', ''A'']"
    then show ?thesis
      by (simp add: pay_gap_eval reference_group_of_def gap_percentage_of_def group_stat_of_def)
  qed
qed

theorem tied_groups_gap_witness:
  "set_iteration [''A'', ''B''] [''A'', ''A'', ''B'', ''B'']
   \<and> reference_group_of (compute_pay_gap no_libraries [''A'', ''B'']
         [50000, 50000, 60000, 60000] [''A'', ''A'', ''B'', ''B''] None) = Some ''A''
   \<and> gap_percentage_of (compute_pay_gap no_libraries [''A'', ''B'']
         [50000, 50000, 60000, 60000] [''A'', ''A'', ''B'', ''B''] None) ''B'' = Some (Fin (- 20))"
proof -
  have h: "set_iteration [''A'', ''B''] [''A'', ''A'', ''B'', ''B'']"
    by (auto simp: set_iteration_def)
  have "reference_group_of (compute_pay_gap no_libraries [''A'', ''B'']
         [50000, 50000, 60000, 60000] [''A'', ''A'', ''B'', ''B''] None) \<noteq> Some ''B''"
    by (simp add: pay_gap_eval reference_group_of_def)
  with tied_groups_gap [OF h, of no_libraries] h show ?thesis by blast
qed

subsection \<open>Missing optional dependencies\<close>

text \<open>
  C8. The claim: when the optional library of an analysis branch is absent, the
  function returns a result with an "unavailable" marker or omits the branch, rather
  than raising. Both functions raise \<^verbatim>\<open>ImportError\<close>; here \<^verbatim>\<open>compute_bias_metrics\<close>
  without fairlearn.
\<close>

theorem missing_fairlearn_counterexample:
  "compute_bias_metrics no_libraries [1, 0] [1, 1] [(''gender'', [''f'', ''m''])]
     = Inl ImportError"
  by (simp add: compute_bias_metrics_def no_libraries_def)

text \<open>
  C8, as the code has it: without fairlearn \<^verbatim>\<open>compute_bias_metrics\<close> raises
  \<^verbatim>\<open>ImportError\<close> on every input, and without scikit-learn
  \<^verbatim>\<open>compute_temporal_trend\<close> raises \<^verbatim>\<open>ImportError\<close> on every non-empty list of
  timestamps (\<^verbatim>\<open>ValueError\<close> on the empty list, from \<^verbatim>\<open>min\<close>); neither returns a
  number. The exception is not caught on the way: \<^verbatim>\<open>compute_pay_gap\<close> called with a
  timestamp for every observation raises \<^verbatim>\<open>ImportError\<close> too, instead of leaving the
  trend out.
\<close>

theorem missing_dependency_raises:
  "(\<not> fairlearn_available lib \<longrightarrow>
      compute_bias_metrics lib y_true y_pred sensitive_features = Inl ImportError)
   \<and> (\<not> sklearn_available lib \<longrightarrow>
      compute_temporal_trend lib vals timestamps
        = (if timestamps = [] then Inl ValueError else Inl ImportError))
   \<and> (\<not> sklearn_available lib \<and> set_iteration group_labels groups \<and> groups \<noteq> []
        \<and> length groups \<le> length salaries \<and> length groups \<le> length ts \<longrightarrow>
      compute_pay_gap lib group_labels salaries groups (Some ts) = Inl ImportError)"
  using compute_pay_gap_without_sklearn [of lib group_labels groups salaries ts]
  by (simp add: compute_bias_metrics_def compute_temporal_trend_def Let_def)

theorem missing_dependency_raises_witness:
  "\<not> fairlearn_available no_libraries
   \<and> compute_bias_metrics no_libraries [1, 0] [1, 1] [(''gender'', [''f'', ''m''])]
       = Inl ImportError
   \<and> \<not> sklearn_available no_libraries
   \<and> compute_temporal_trend no_libraries [10, 20] [0, 86400000000] = Inl ImportError
   \<and> set_iteration [''A''] [''A'', ''A''] \<and> [''A'', ''A''] \<noteq> []
   \<and> length [''A'', ''A''] \<le> length [10, 20 :: real]
   \<and> length [''A'', ''A''] \<le> length [0, 86400000000 :: int]
   \<and> compute_pay_gap no_libraries [''A''] [10, 20] [''A'', ''A''] (Some [0, 86400000000])
       = Inl ImportError"
proof -
  have h1: "\<not> fairlearn_available no_libraries" and h2: "\<not> sklearn_available no_libraries"
    by (simp_all add: no_libraries_def)
  have h3: "set_iteration [''A''] [''A'', ''A'']" by (simp add: set_iteration_def)
  from missing_dependency_raises [of no_libraries "[1, 0]" "[1, 1]"
      "[(''gender'', [''f'', ''m''])]" "[10, 20]" "[0, 86400000000]" "[''A'']" "[''A'', ''A'']"
      "[10, 20]" "[0, 86400000000]"] h1 h2 h3
  show ?thesis by simp
qed

subsection \<open>Fairness score, report and recommendations\<close>


text \<open>
  The missing clamp is the only way out of the interval: for every input whose
  \<^verbatim>\<open>demographic_parity\<close> and \<^verbatim>\<open>equalized_odds\<close> values have absolute value at most 1
  (the range of fairlearn's difference metrics), whatever the gap percentages are, the
  score is a number in \<^verbatim>\<open>[0, 1]\<close>; and it is exactly 0 when none of \<^verbatim>\<open>"pay_gap"\<close>,
  \<^verbatim>\<open>"bias_metrics"\<close> and \<^verbatim>\<open>"trends"\<close> is present.
\<close>

theorem fairness_score_in_unit_interval:
  assumes "bias_values_in_range ar"
  shows "(\<exists>s. calculate_overall_fairness_score ar = Fin s \<and> 0 \<le> s \<and> s \<le> 1)
       \<and> (pay_gap ar = None \<and> bias_metrics ar = None \<and> trends ar = None
            \<longrightarrow> calculate_overall_fairness_score ar = Fin 0)"
proof
  let ?cs = "pay_gap_component ar @ bias_component ar @ trend_component ar"
  have all: "list_all unit_score ?cs"
    using pay_gap_component_unit bias_component_unit [OF assms] trend_component_unit
    by simp
  show "\<exists>s. calculate_overall_fairness_score ar = Fin s \<and> 0 \<le> s \<and> s \<le> 1"
  proof (cases "?cs = []")
    case True
    then show ?thesis by (simp add: calculate_overall_fairness_score_def)
  next
    case False
    from weighted_sums [OF all] False obtain u v where uv: "0 \<le> u" "u \<le> v" "0 < v"
      and fu: "foldl fl_add (Fin 0)
               (map (\<lambda>(component, score). fl_mul (Fin (weights component)) score) ?cs)
             = Fin (0 + u)"
      and fv: "foldl fl_add (Fin 0) (map (\<lambda>(component, score). Fin (weights component)) ?cs)
             = Fin (0 + v)"
      by blast
    have "calculate_overall_fairness_score ar = Fin (u / v)"
      using False uv fu fv by (simp add: calculate_overall_fairness_score_def Let_def py_sum_def)
    moreover have "0 \<le> u / v" "u / v \<le> 1" using uv by simp_all
    ultimately show ?thesis by blast
  qed
next
  show "pay_gap ar = None \<and> bias_metrics ar = None \<and> trends ar = None
            \<longrightarrow> calculate_overall_fairness_score ar = Fin 0"
    by (simp add: calculate_overall_fairness_score_def pay_gap_component_def
        bias_component_def trend_component_def)
qed

theorem fairness_score_in_unit_interval_witness:
  "bias_values_in_range \<lparr> pay_gap = None, bias_metrics = None, trends = None \<rparr>
   \<and> calculate_overall_fairness_score \<lparr> pay_gap = None, bias_metrics = None, trends = None \<rparr>
       = Fin 0
   \<and> bias_values_in_range
        \<lparr> pay_gap = None,
          bias_metrics = Some [(''gender'',
            \<lparr> overall = \<lparr> selection_rate = 1 / 2, demographic_parity = 1 / 10,
                          equalized_odds = 2 / 10, true_positive_rate = 1 / 2,
                          false_positive_rate = 1 / 2 \<rparr>,
              by_group = [], metric_significance = [] \<rparr>)],
          trends = None \<rparr>
   \<and> (\<exists>s. calculate_overall_fairness_score
        \<lparr> pay_gap = None,
          bias_metrics = Some [(''gender'',
            \<lparr> overall = \<lparr> selection_rate = 1 / 2, demographic_parity = 1 / 10,
                          equalized_odds = 2 / 10, true_positive_rate = 1 / 2,
                          false_positive_rate = 1 / 2 \<rparr>,
              by_group = [], metric_significance = [] \<rparr>)],
          trends = None \<rparr> = Fin s \<and> 0 \<le> s \<and> s \<le> 1)"
proof -
  have h1: "bias_values_in_range \<lparr> pay_gap = None, bias_metrics = None, trends = None \<rparr>"
    by (simp add: bias_values_in_range_def)
  have h2: "bias_values_in_range
        \<lparr> pay_gap = None,
          bias_metrics = Some [(''gender'',
            \<lparr> overall = \<lparr> selection_rate = 1 / 2, demographic_parity = 1 / 10,
                          equalized_odds = 2 / 10, true_positive_rate = 1 / 2,
                          false_positive_rate = 1 / 2 \<rparr>,
              by_group = [], metric_significance = [] \<rparr>)],
          trends = None \<rparr>"
    by (simp add: bias_values_in_range_def)
  from fairness_score_in_unit_interval [OF h1] fairness_score_in_unit_interval [OF h2] h1 h2
  show ?thesis by simp
qed

text \<open>
  C9. For every analysis that contains a pay-gap result whose gap percentages are
  numbers, the report's recommendation list contains a recommendation of category
  \<^verbatim>\<open>"pay_equity"\<close> and priority \<^verbatim>\<open>"high"\<close> exactly when the largest gap percentage
  exceeds 5, that is, when some gap percentage does (with no gap at all the largest gap
  defaults to 0).
\<close>

theorem pay_equity_recommendation_iff:
  assumes "pay_gap ar = Some pg"
    and "list_all (\<lambda>(k, g). gap_percentage g \<noteq> NaN) (gaps pg)"
  shows "list_ex is_pay_equity_high
           (recommendations (report_summary (generate_fairness_report now ar)))
         \<longleftrightarrow> list_ex (\<lambda>(k, g). fl_less (Fin 5) (gap_percentage g)) (gaps pg)"
proof -
  let ?xs = "map (\<lambda>(k, g). gap_percentage g) (gaps pg)"
  have nn: "list_all (\<lambda>x. x \<noteq> NaN) ?xs"
    using assms(2) by (simp add: list_all_iff split_beta)
  have "list_ex is_pay_equity_high
           (recommendations (report_summary (generate_fairness_report now ar)))
        \<longleftrightarrow> fl_less (Fin 5) (py_max_default ?xs (Fin 0))"
    by (simp add: report_recommendations generate_smart_recommendations_def
        bias_recommendations_category trend_recommendations_category
        pay_equity_recommendations_category report_pay_equity assms(1)
        analyse_pay_equity_def)
  also have "\<dots> \<longleftrightarrow> list_ex (fl_less (Fin 5)) ?xs"
    by (rule py_max_default_exceeds [OF nn])
  also have "\<dots> \<longleftrightarrow> list_ex (\<lambda>(k, g). fl_less (Fin 5) (gap_percentage g)) (gaps pg)"
    by (simp add: list_ex_iff split_beta)
  finally show ?thesis .
qed

theorem pay_equity_recommendation_iff_witness:
  "pay_gap sample_analysis = Some (the (pay_gap sample_analysis))
   \<and> list_all (\<lambda>(k, g). gap_percentage g \<noteq> NaN) (gaps (the (pay_gap sample_analysis)))
   \<and> list_ex (\<lambda>(k, g). fl_less (Fin 5) (gap_percentage g))
        (gaps (the (pay_gap sample_analysis)))
   \<and> list_ex is_pay_equity_high
        (recommendations
           (report_summary (generate_fairness_report ''2026-01-01T00:00:00'' sample_analysis)))"
proof -
  have h1: "pay_gap sample_analysis = Some (the (pay_gap sample_analysis))"
    by (simp add: sample_analysis_def)
  have h2: "list_all (\<lambda>(k, g). gap_percentage g \<noteq> NaN)
              (gaps (the (pay_gap sample_analysis)))"
    by (simp add: sample_analysis_def)
  have h3: "list_ex (\<lambda>(k, g). fl_less (Fin 5) (gap_percentage g))
              (gaps (the (pay_gap sample_analysis)))"
    by (simp add: sample_analysis_def)
  from pay_equity_recommendation_iff [OF h1 h2, of "''2026-01-01T00:00:00''"] h1 h2 h3
  show ?thesis by blast
qed

text \<open>
  C4. The claim: when the trend results contain a long-term worsening trend for some
  metric, the recommendation list contains a \<^verbatim>\<open>"trend_mitigation"\<close> recommendation. The
  rule looks the key \<^verbatim>\<open>"concerning"\<close> up in the dictionary of long-term trends, whose
  keys are metric names, instead of in the findings: for the history
  \<^verbatim>\<open>{"gap": [1, 2, 3, 4]}\<close> the metric \<^verbatim>\<open>gap\<close> is marked concerning (slope 1, R squared
  1) and the report has no recommendation at all.
\<close>

theorem concerning_trend_without_recommendation:
  "map_option long_term_trends
     (da_trend_analysis (report_detailed_analysis (generate_fairness_report now
        \<lparr> pay_gap = None, bias_metrics = None,
          trends = Some \<lparr> historical_metrics = Some [(''gap'', [1, 2, 3, 4])],
                          increasing_disparity = None \<rparr> \<rparr>)))
     = Some (Per_metric [(''gap'',
          \<lparr> lt_direction = ''increasing'', strength = 1, lt_significance = Fin 1,
            concerning = True \<rparr>)])
   \<and> recommendations (report_summary (generate_fairness_report now
        \<lparr> pay_gap = None, bias_metrics = None,
          trends = Some \<lparr> historical_metrics = Some [(''gap'', [1, 2, 3, 4])],
                          increasing_disparity = None \<rparr> \<rparr>)) = []"
  by (simp add: generate_fairness_report_def analyse_trends_def identify_long_term_trends_def
      generate_smart_recommendations_def pay_equity_recommendations_def
      bias_recommendations_def trend_recommendations_def get_concerning_def
      arange_def polyfit1_def mean_def upt_rec power2_eq_square Let_def fl_sub_def)

end
